theory Spec2Isabelle
  imports Main "HOL-Library.Word" "HOL-Library.Sublist"
begin

unbundle bit_operations_syntax

section \<open>Python values\<close>

text \<open>
  Everything the scraper handles is a value decoded from JSON (the configuration
  file, the API responses) or built from such values with dict and list
  literals. A dict keeps its insertion order and is an association list with
  the first binding of a key the one that is read; an int is unbounded; a float
  is its IEEE 754 binary64 bit pattern.
\<close>

datatype json =
    JNull
  | JBool bool
  | JInt int
  | JFloat "64 word"
  | JStr string
  | JList "json list"
  | JObj "(string \<times> json) list"

text \<open>
  The exceptions the program can meet. \<open>HTTPError\<close> carries \<open>str(e)\<close>, the
  only exception \<open>main\<close> catches.
\<close>

datatype error =
    ValueError string
  | KeyError string
  | TypeError
  | AttributeError
  | HTTPError string
  | RequestError
  | JSONDecodeError
  | OSError

type_synonym 'a result = "error + 'a"

definition and_then :: "'a result \<Rightarrow> ('a \<Rightarrow> 'b result) \<Rightarrow> 'b result" where
  "and_then m f = (case m of Inl e \<Rightarrow> Inl e | Inr x \<Rightarrow> f x)"

text \<open>Truth value testing (\<open>if x\<close>, \<open>if not x\<close>).\<close>

fun truthy :: "json \<Rightarrow> bool" where
  "truthy JNull = False"
| "truthy (JBool b) = b"
| "truthy (JInt i) = (i \<noteq> 0)"
| "truthy (JFloat w) = (w AND 0x7FFFFFFFFFFFFFFF \<noteq> 0)"
| "truthy (JStr s) = (s \<noteq> [])"
| "truthy (JList xs) = (xs \<noteq> [])"
| "truthy (JObj kvs) = (kvs \<noteq> [])"

text \<open>
  \<open>str(x)\<close>, which is what an f-string placeholder \<open>{x}\<close> inserts. A string is
  inserted as it is. The text Python gives a float, a list or a dict is computed
  by the interpreter's \<open>repr\<close>; it is the parameter \<open>fmt\<close> of every function
  that formats a value.
\<close>

fun str_nat :: "nat \<Rightarrow> string" where
  "str_nat n =
     (if n < 10 then [char_of (48 + n)]
      else str_nat (n div 10) @ [char_of (48 + n mod 10)])"

declare str_nat.simps [simp del]

definition str_int :: "int \<Rightarrow> string" where
  "str_int i = (if i < 0 then CHR ''-'' # str_nat (nat (- i)) else str_nat (nat i))"

fun py_str :: "(json \<Rightarrow> string) \<Rightarrow> json \<Rightarrow> string" where
  "py_str fmt JNull = ''None''"
| "py_str fmt (JBool b) = (if b then ''True'' else ''False'')"
| "py_str fmt (JInt i) = str_int i"
| "py_str fmt (JStr s) = s"
| "py_str fmt v = fmt v"

text \<open>
  The formatter of a run in which only strings, ints, booleans and \<open>None\<close> are
  formatted: it is never called there.
\<close>

definition no_repr :: "json \<Rightarrow> string" where
  "no_repr v = []"

text \<open>\<open>d.get(k, default)\<close> on the bindings of a dict.\<close>

definition get :: "(string \<times> json) list \<Rightarrow> string \<Rightarrow> json \<Rightarrow> json" where
  "get kvs k d = (case map_of kvs k of None \<Rightarrow> d | Some v \<Rightarrow> v)"

text \<open>\<open>x.get(k, default)\<close>: only a dict has the method.\<close>

fun dict_get :: "json \<Rightarrow> string \<Rightarrow> json \<Rightarrow> json result" where
  "dict_get (JObj kvs) k d = Inr (get kvs k d)"
| "dict_get _ k d = Inl AttributeError"

text \<open>
  \<open>x[k]\<close> with a string key: a missing key of a dict raises KeyError, and a
  string, a list or a scalar cannot be indexed by a string.
\<close>

fun getitem :: "json \<Rightarrow> string \<Rightarrow> json result" where
  "getitem (JObj kvs) k = (case map_of kvs k of None \<Rightarrow> Inl (KeyError k) | Some v \<Rightarrow> Inr v)"
| "getitem _ k = Inl TypeError"

text \<open>
  \<open>for x in v\<close>: a list gives its elements, a dict its keys, a string its
  characters; nothing else can be iterated.
\<close>

fun py_iter :: "json \<Rightarrow> json list result" where
  "py_iter (JList xs) = Inr xs"
| "py_iter (JObj kvs) = Inr (map (\<lambda>kv. JStr (fst kv)) kvs)"
| "py_iter (JStr s) = Inr (map (\<lambda>c. JStr [c]) s)"
| "py_iter _ = Inl TypeError"

text \<open>A list comprehension \<open>[f(x) for x in xs]\<close>: the first exception ends it.\<close>

fun map_result :: "('a \<Rightarrow> 'b result) \<Rightarrow> 'a list \<Rightarrow> 'b list result" where
  "map_result f [] = Inr []"
| "map_result f (x # xs) =
     and_then (f x) (\<lambda>y. and_then (map_result f xs) (\<lambda>ys. Inr (y # ys)))"

section \<open>Configuration loader\<close>

text \<open>
  \<open>load_config\<close> opens \<open>config.json\<close> beside the program and returns what
  \<open>json.load\<close> returns. The outcome of reading and decoding that file is the
  argument: the decoded value, or the exception of a missing or malformed file.
\<close>

definition load_config :: "json result \<Rightarrow> json result" where
  "load_config config_file = config_file"

section \<open>Observation fetcher\<close>

record request =
  url :: string
  headers :: "(string \<times> string) list"
  params :: "(string \<times> json) list"

text \<open>
  What one GET can lead to: \<open>requests.get\<close> itself raises, or
  \<open>raise_for_status\<close> raises HTTPError with its message, or the body is not
  JSON, or the body decodes to a value.
\<close>

datatype net_outcome =
    NoResponse
  | BadStatus string
  | BadBody
  | Payload json

text \<open>The network answers the \<open>i\<close>-th request of the run.\<close>

type_synonym network = "nat \<Rightarrow> request \<Rightarrow> net_outcome"

definition fetch_notable_observations ::
  "(json \<Rightarrow> string) \<Rightarrow> network \<Rightarrow> nat \<Rightarrow> string \<Rightarrow> json \<Rightarrow> json \<Rightarrow> json \<Rightarrow> json result" where
  "fetch_notable_observations fmt net i api_key region_code days_back max_results =
     (let req = \<lparr> url = ''https://api.ebird.org/v2/data/obs/'' @ py_str fmt region_code
                        @ ''/recent/notable'',
                  headers = [(''X-eBirdApiToken'', api_key)],
                  params = [(''back'', days_back), (''maxResults'', max_results),
                            (''detail'', JStr ''full'')] \<rparr>
      in case net i req of
           NoResponse \<Rightarrow> Inl RequestError
         | BadStatus msg \<Rightarrow> Inl (HTTPError msg)
         | BadBody \<Rightarrow> Inl JSONDecodeError
         | Payload v \<Rightarrow> Inr v)"

section \<open>Observation formatter\<close>

text \<open>
  \<open>obs.get(...)\<close> is the first thing evaluated, so anything but a dict raises
  AttributeError. A URL is built when \<open>obs.get(key)\<close> is true in Python's sense.
\<close>

definition derived_url :: "(json \<Rightarrow> string) \<Rightarrow> string \<Rightarrow> (string \<times> json) list \<Rightarrow> string \<Rightarrow> json" where
  "derived_url fmt base kvs k =
     (if truthy (get kvs k JNull) then JStr (base @ py_str fmt (get kvs k (JStr ''''))) else JNull)"

fun format_observation :: "(json \<Rightarrow> string) \<Rightarrow> json \<Rightarrow> json result" where
  "format_observation fmt (JObj obs) = Inr (JObj
     [(''species'', get obs ''comName'' (JStr ''Unknown'')),
      (''scientific_name'', get obs ''sciName'' (JStr '''')),
      (''count'', get obs ''howMany'' (JStr ''X'')),
      (''location'', get obs ''locName'' (JStr ''Unknown location'')),
      (''date'', get obs ''obsDt'' (JStr '''')),
      (''lat'', get obs ''lat'' JNull),
      (''lng'', get obs ''lng'' JNull),
      (''checklist_url'', derived_url fmt ''https://ebird.org/checklist/'' obs ''subId''),
      (''species_url'', derived_url fmt ''https://ebird.org/species/'' obs ''speciesCode''),
      (''location_id'', get obs ''locId'' (JStr '''')),
      (''observer'', get obs ''userDisplayName'' (JStr '''')),
      (''is_valid'', get obs ''obsValid'' (JBool True)),
      (''is_reviewed'', get obs ''obsReviewed'' (JBool False))])"
| "format_observation fmt _ = Inl AttributeError"

section \<open>HTML renderer\<close>

text \<open>
  The three conditional expressions at the head of the inner loop. Each reads
  the observation with \<open>obs[key]\<close>, so each can raise.
\<close>

definition count_str :: "(json \<Rightarrow> string) \<Rightarrow> json \<Rightarrow> string result" where
  "count_str fmt obs =
     and_then (getitem obs ''count'') (\<lambda>c.
       if c \<noteq> JStr ''X'' then Inr (py_str fmt c) else Inr ''present'')"

definition checklist_link :: "(json \<Rightarrow> string) \<Rightarrow> json \<Rightarrow> string result" where
  \<open>checklist_link fmt obs =
     and_then (getitem obs ''checklist_url'') (\<lambda>u.
       if truthy u
       then Inr (''<a href="'' @ py_str fmt u @ ''" target="_blank">View checklist</a>'')
       else Inr [])\<close>

definition species_link :: "(json \<Rightarrow> string) \<Rightarrow> json \<Rightarrow> string result" where
  \<open>species_link fmt obs =
     and_then (getitem obs ''species_url'') (\<lambda>u.
       if truthy u
       then and_then (getitem obs ''species'') (\<lambda>s.
              Inr (''<a href="'' @ py_str fmt u @ ''" target="_blank">'' @ py_str fmt s @ ''</a>''))
       else and_then (getitem obs ''species'') (\<lambda>s. Inr (py_str fmt s)))\<close>

text \<open>The text one pass of the inner loop appends to \<open>obs_items\<close>.\<close>

definition observation_html :: "(json \<Rightarrow> string) \<Rightarrow> json \<Rightarrow> string result" where
  \<open>observation_html fmt obs =
     and_then (count_str fmt obs) (\<lambda>count.
     and_then (checklist_link fmt obs) (\<lambda>checklist.
     and_then (species_link fmt obs) (\<lambda>species.
     and_then (getitem obs ''scientific_name'') (\<lambda>scientific_name.
     and_then (getitem obs ''location'') (\<lambda>location.
     and_then (getitem obs ''date'') (\<lambda>date.
     Inr (''\<newline>''
     @ ''                <div class="observation">\<newline>''
     @ ''                    <div class="species-name">'' @ species @ ''</div>\<newline>''
     @ ''                    <div class="species-scientific">'' @ py_str fmt scientific_name @ ''</div>\<newline>''
     @ ''                    <div class="details">\<newline>''
     @ ''                        <span class="count">'' @ count @ ''</span> at\<newline>''
     @ ''                        <span class="location">'' @ py_str fmt location @ ''</span>\<newline>''
     @ ''                    </div>\<newline>''
     @ ''                    <div class="meta">\<newline>''
     @ ''                        <span class="date">'' @ py_str fmt date @ ''</span>\<newline>''
     @ ''                        '' @ checklist @ ''\<newline>''
     @ ''                    </div>\<newline>''
     @ ''                </div>\<newline>''
     @ ''                '')))))))\<close>

text \<open>The inner loop, \<open>obs_items\<close> its accumulator.\<close>

fun observations_loop :: "(json \<Rightarrow> string) \<Rightarrow> string \<Rightarrow> json list \<Rightarrow> string result" where
  "observations_loop fmt obs_items [] = Inr obs_items"
| "observations_loop fmt obs_items (obs # rest) =
     and_then (observation_html fmt obs) (\<lambda>item.
       observations_loop fmt (obs_items @ item) rest)"

text \<open>The text one pass of the outer loop appends to \<open>regions_html\<close>.\<close>

definition region_html :: "(json \<Rightarrow> string) \<Rightarrow> json \<Rightarrow> string result" where
  \<open>region_html fmt region_data =
     and_then (getitem region_data ''name'') (\<lambda>region_name.
     and_then (getitem region_data ''observations'') (\<lambda>observations.
     and_then (if \<not> truthy observations
               then Inr ''<p>No notable sightings in the past week.</p>''
               else and_then (py_iter observations) (observations_loop fmt [])) (\<lambda>obs_html.
     Inr (''\<newline>''
     @ ''        <section class="region">\<newline>''
     @ ''            <h2>'' @ py_str fmt region_name @ ''</h2>\<newline>''
     @ ''            <div class="observations">\<newline>''
     @ ''                '' @ obs_html @ ''\<newline>''
     @ ''            </div>\<newline>''
     @ ''        </section>\<newline>''
     @ ''        ''))))\<close>

fun regions_loop :: "(json \<Rightarrow> string) \<Rightarrow> string \<Rightarrow> json list \<Rightarrow> string result" where
  "regions_loop fmt regions_html [] = Inr regions_html"
| "regions_loop fmt regions_html (region_data # rest) =
     and_then (region_html fmt region_data) (\<lambda>section.
       regions_loop fmt (regions_html @ section) rest)"

text \<open>
  The page template is one f-string with two placeholders; these are its three
  literal parts, with the doubled braces of the stylesheet already single.
\<close>

definition page_head :: string where
  \<open>page_head =
     ''<!DOCTYPE html>\<newline>''
     @ ''<html lang="en">\<newline>''
     @ ''<head>\<newline>''
     @ ''    <meta charset="UTF-8">\<newline>''
     @ ''    <meta name="viewport" content="width=device-width, initial-scale=1.0">\<newline>''
     @ ''    <title>eBird Notable Sightings</title>\<newline>''
     @ ''    <style>\<newline>''
     @ ''        :root {\<newline>''
     @ ''            --primary: #2e7d32;\<newline>''
     @ ''            --primary-light: #4caf50;\<newline>''
     @ ''            --bg: #f5f5f5;\<newline>''
     @ ''            --card-bg: #ffffff;\<newline>''
     @ ''            --text: #333333;\<newline>''
     @ ''            --text-light: #666666;\<newline>''
     @ ''            --border: #e0e0e0;\<newline>''
     @ ''        }\<newline>''
     @ ''\<newline>''
     @ ''        * {\<newline>''
     @ ''            box-sizing: border-box;\<newline>''
     @ ''            margin: 0;\<newline>''
     @ ''            padding: 0;\<newline>''
     @ ''        }\<newline>''
     @ ''\<newline>''
     @ ''        body {\<newline>''
     @ ''            font-family: -apple-system, BlinkMacSystemFont, 'Segoe UI', Roboto, Oxygen, Ubuntu, sans-serif;\<newline>''
     @ ''            background: var(--bg);\<newline>''
     @ ''            color: var(--text);\<newline>''
     @ ''            line-height: 1.6;\<newline>''
     @ ''            padding: 20px;\<newline>''
     @ ''        }\<newline>''
     @ ''\<newline>''
     @ ''        .container {\<newline>''
     @ ''            max-width: 900px;\<newline>''
     @ ''            margin: 0 auto;\<newline>''
     @ ''        }\<newline>''
     @ ''\<newline>''
     @ ''        header {\<newline>''
     @ ''            text-align: center;\<newline>''
     @ ''            padding: 30px 0;\<newline>''
     @ ''            border-bottom: 2px solid var(--primary);\<newline>''
     @ ''            margin-bottom: 30px;\<newline>''
     @ ''        }\<newline>''
     @ ''\<newline>''
     @ ''        h1 {\<newline>''
     @ ''            color: var(--primary);\<newline>''
     @ ''            font-size: 2rem;\<newline>''
     @ ''            margin-bottom: 10px;\<newline>''
     @ ''        }\<newline>''
     @ ''\<newline>''
     @ ''        .last-updated {\<newline>''
     @ ''            color: var(--text-light);\<newline>''
     @ ''            font-size: 0.9rem;\<newline>''
     @ ''        }\<newline>''
     @ ''\<newline>''
     @ ''        .region {\<newline>''
     @ ''            margin-bottom: 40px;\<newline>''
     @ ''        }\<newline>''
     @ ''\<newline>''
     @ ''        .region h2 {\<newline>''
     @ ''            color: var(--primary);\<newline>''
     @ ''            border-bottom: 1px solid var(--border);\<newline>''
     @ ''            padding-bottom: 10px;\<newline>''
     @ ''            margin-bottom: 20px;\<newline>''
     @ ''        }\<newline>''
     @ ''\<newline>''
     @ ''        .observation {\<newline>''
     @ ''            background: var(--card-bg);\<newline>''
     @ ''            border-radius: 8px;\<newline>''
     @ ''            padding: 15px 20px;\<newline>''
     @ ''            margin-bottom: 15px;\<newline>''
     @ ''            box-shadow: 0 2px 4px rgba(0,0,0,0.1);\<newline>''
     @ ''            border-left: 4px solid var(--primary-light);\<newline>''
     @ ''        }\<newline>''
     @ ''\<newline>''
     @ ''        .species-name {\<newline>''
     @ ''            font-size: 1.2rem;\<newline>''
     @ ''            font-weight: 600;\<newline>''
     @ ''            color: var(--primary);\<newline>''
     @ ''        }\<newline>''
     @ ''\<newline>''
     @ ''        .species-name a {\<newline>''
     @ ''            color: inherit;\<newline>''
     @ ''            text-decoration: none;\<newline>''
     @ ''        }\<newline>''
     @ ''\<newline>''
     @ ''        .species-name a:hover {\<newline>''
     @ ''            text-decoration: underline;\<newline>''
     @ ''        }\<newline>''
     @ ''\<newline>''
     @ ''        .species-scientific {\<newline>''
     @ ''            font-style: italic;\<newline>''
     @ ''            color: var(--text-light);\<newline>''
     @ ''            font-size: 0.9rem;\<newline>''
     @ ''            margin-bottom: 8px;\<newline>''
     @ ''        }\<newline>''
     @ ''\<newline>''
     @ ''        .details {\<newline>''
     @ ''            margin: 8px 0;\<newline>''
     @ ''        }\<newline>''
     @ ''\<newline>''
     @ ''        .count {\<newline>''
     @ ''            font-weight: 600;\<newline>''
     @ ''            background: var(--primary-light);\<newline>''
     @ ''            color: white;\<newline>''
     @ ''            padding: 2px 8px;\<newline>''
     @ ''            border-radius: 4px;\<newline>''
     @ ''            font-size: 0.85rem;\<newline>''
     @ ''        }\<newline>''
     @ ''\<newline>''
     @ ''        .location {\<newline>''
     @ ''            color: var(--text);\<newline>''
     @ ''        }\<newline>''
     @ ''\<newline>''
     @ ''        .meta {\<newline>''
     @ ''            display: flex;\<newline>''
     @ ''            justify-content: space-between;\<newline>''
     @ ''            align-items: center;\<newline>''
     @ ''            margin-top: 10px;\<newline>''
     @ ''            font-size: 0.85rem;\<newline>''
     @ ''            color: var(--text-light);\<newline>''
     @ ''        }\<newline>''
     @ ''\<newline>''
     @ ''        .meta a {\<newline>''
     @ ''            color: var(--primary);\<newline>''
     @ ''            text-decoration: none;\<newline>''
     @ ''        }\<newline>''
     @ ''\<newline>''
     @ ''        .meta a:hover {\<newline>''
     @ ''            text-decoration: underline;\<newline>''
     @ ''        }\<newline>''
     @ ''\<newline>''
     @ ''        footer {\<newline>''
     @ ''            text-align: center;\<newline>''
     @ ''            padding: 30px 0;\<newline>''
     @ ''            color: var(--text-light);\<newline>''
     @ ''            font-size: 0.85rem;\<newline>''
     @ ''            border-top: 1px solid var(--border);\<newline>''
     @ ''            margin-top: 40px;\<newline>''
     @ ''        }\<newline>''
     @ ''\<newline>''
     @ ''        footer a {\<newline>''
     @ ''            color: var(--primary);\<newline>''
     @ ''        }\<newline>''
     @ ''\<newline>''
     @ ''        @media (max-width: 600px) {\<newline>''
     @ ''            body {\<newline>''
     @ ''                padding: 10px;\<newline>''
     @ ''            }\<newline>''
     @ ''\<newline>''
     @ ''            h1 {\<newline>''
     @ ''                font-size: 1.5rem;\<newline>''
     @ ''            }\<newline>''
     @ ''\<newline>''
     @ ''            .observation {\<newline>''
     @ ''                padding: 12px 15px;\<newline>''
     @ ''            }\<newline>''
     @ ''        }\<newline>''
     @ ''    </style>\<newline>''
     @ ''</head>\<newline>''
     @ ''<body>\<newline>''
     @ ''    <div class="container">\<newline>''
     @ ''        <header>\<newline>''
     @ ''            <h1>Notable Bird Sightings</h1>\<newline>''
     @ ''            <p class="last-updated">Last updated: ''\<close>

definition page_middle :: string where
  \<open>page_middle =
     ''</p>\<newline>''
     @ ''        </header>\<newline>''
     @ ''\<newline>''
     @ ''        <main>\<newline>''
     @ ''            ''\<close>

definition page_foot :: string where
  \<open>page_foot =
     ''\<newline>''
     @ ''        </main>\<newline>''
     @ ''\<newline>''
     @ ''        <footer>\<newline>''
     @ ''            <p>Data from <a href="https://ebird.org" target="_blank">eBird</a> |\<newline>''
     @ ''            Updated automatically via GitHub Actions</p>\<newline>''
     @ ''        </footer>\<newline>''
     @ ''    </div>\<newline>''
     @ ''</body>\<newline>''
     @ ''</html>\<newline>''\<close>

text \<open>\<open>config\<close> is a parameter of the source function that its body never reads.\<close>

definition generate_html ::
  "(json \<Rightarrow> string) \<Rightarrow> json list \<Rightarrow> json \<Rightarrow> string \<Rightarrow> string result" where
  "generate_html fmt all_observations config last_updated =
     and_then (regions_loop fmt [] all_observations) (\<lambda>regions_html.
       Inr (page_head @ last_updated @ page_middle @ regions_html @ page_foot))"

section \<open>Orchestrator\<close>

text \<open>
  What \<open>main\<close> reads from outside: the environment variable, the outcome of
  reading the configuration file, the network, the formatted clock, and whether
  each of the three file-system operations raises.
\<close>

record environment =
  EBIRD_API_KEY :: "string option"
  config_file :: "json result"
  net :: network
  utc_now :: string
  mkdir_fails :: bool
  write_json_fails :: bool
  write_html_fails :: bool

text \<open>What a run that returns has written: the value dumped to \<open>data.json\<close> and the page.\<close>

record outputs =
  data_json :: json
  index_html :: string

text \<open>
  The call of \<open>fetch_notable_observations\<close> in \<open>main\<close>, with its arguments
  evaluated from left to right; \<open>i\<close> counts the requests. The body of the
  \<open>try\<close> block for one region follows.
\<close>

definition fetch_call ::
  "(json \<Rightarrow> string) \<Rightarrow> network \<Rightarrow> string \<Rightarrow> json \<Rightarrow> nat \<Rightarrow> json \<Rightarrow> json result" where
  "fetch_call fmt nw api_key config i region =
     and_then (getitem region ''code'') (\<lambda>region_code.
     and_then (dict_get config ''days_back'' (JInt 7)) (\<lambda>days_back.
     and_then (dict_get config ''max_results'' (JInt 100)) (\<lambda>max_results.
     fetch_notable_observations fmt nw i api_key region_code days_back max_results)))"

definition fetch_region ::
  "(json \<Rightarrow> string) \<Rightarrow> network \<Rightarrow> string \<Rightarrow> json \<Rightarrow> nat \<Rightarrow> json \<Rightarrow> json result" where
  "fetch_region fmt nw api_key config i region =
     and_then (fetch_call fmt nw api_key config i region) (\<lambda>raw_obs.
     and_then (py_iter raw_obs) (\<lambda>obs_list.
     and_then (map_result (format_observation fmt) obs_list) (\<lambda>formatted.
     and_then (getitem region ''code'') (\<lambda>code.
     and_then (getitem region ''name'') (\<lambda>name.
     Inr (JObj [(''code'', code), (''name'', name), (''observations'', JList formatted)]))))))"

text \<open>
  One pass of the loop over the regions: the arguments of the progress message
  are evaluated, then the \<open>try\<close> block runs, and HTTPError alone is caught.
\<close>

definition region_entry ::
  "(json \<Rightarrow> string) \<Rightarrow> network \<Rightarrow> string \<Rightarrow> json \<Rightarrow> nat \<Rightarrow> json \<Rightarrow> json result" where
  "region_entry fmt nw api_key config i region =
     and_then (getitem region ''name'') (\<lambda>_.
     and_then (getitem region ''code'') (\<lambda>_.
       case fetch_region fmt nw api_key config i region of
         Inr entry \<Rightarrow> Inr entry
       | Inl (HTTPError msg) \<Rightarrow>
           and_then (getitem region ''code'') (\<lambda>code.
           and_then (getitem region ''name'') (\<lambda>name.
           Inr (JObj [(''code'', code), (''name'', name), (''observations'', JList []),
                      (''error'', JStr msg)])))
       | Inl e \<Rightarrow> Inl e))"

fun fetch_loop ::
  "(json \<Rightarrow> string) \<Rightarrow> network \<Rightarrow> string \<Rightarrow> json \<Rightarrow> nat \<Rightarrow> json list \<Rightarrow> json list \<Rightarrow> json list result" where
  "fetch_loop fmt nw api_key config i all_observations [] = Inr all_observations"
| "fetch_loop fmt nw api_key config i all_observations (region # rest) =
     and_then (region_entry fmt nw api_key config i region) (\<lambda>entry.
       fetch_loop fmt nw api_key config (Suc i) (all_observations @ [entry]) rest)"

definition main :: "(json \<Rightarrow> string) \<Rightarrow> environment \<Rightarrow> outputs result" where
  "main fmt env =
     (case EBIRD_API_KEY env of
        None \<Rightarrow> Inl (ValueError ''EBIRD_API_KEY environment variable not set'')
      | Some api_key \<Rightarrow>
          if api_key = [] then Inl (ValueError ''EBIRD_API_KEY environment variable not set'')
          else
            and_then (load_config (config_file env)) (\<lambda>config.
            and_then (getitem config ''regions'') (\<lambda>regions.
            and_then (py_iter regions) (\<lambda>region_list.
            and_then (fetch_loop fmt (net env) api_key config 0 [] region_list) (\<lambda>all_observations.
              let last_updated = utc_now env;
                  json_output = JObj [(''last_updated'', JStr last_updated),
                                      (''config'', config),
                                      (''regions'', JList all_observations)]
              in if mkdir_fails env then Inl OSError
                 else if write_json_fails env then Inl OSError
                 else and_then (generate_html fmt all_observations config last_updated) (\<lambda>html.
                        if write_html_fails env then Inl OSError
                        else Inr \<lparr> data_json = json_output, index_html = html \<rparr>))))))"

text \<open>The exit status of the process: an exception that leaves \<open>main\<close> ends it with 1.\<close>

definition exit_status :: "outputs result \<Rightarrow> nat" where
  "exit_status r = (case r of Inl e \<Rightarrow> 1 | Inr out \<Rightarrow> 0)"

section \<open>An example run\<close>

text \<open>
  Two regions. The first request is answered with a 404, the second with one
  observation whose names carry markup.
\<close>

definition example_regions :: "json list" where
  "example_regions =
     [JObj [(''code'', JStr ''US-NY''), (''name'', JStr ''New York'')],
      JObj [(''code'', JStr ''US-CA''), (''name'', JStr ''California'')]]"

definition example_config :: json where
  "example_config = JObj [(''regions'', JList example_regions)]"

definition example_raw :: json where
  "example_raw = JObj
     [(''comName'', JStr ''Snowy <b>Owl</b>''),
      (''sciName'', JStr ''Bubo scandiacus''),
      (''locName'', JStr ''Central Park''),
      (''obsDt'', JStr ''2024-01-05 08:30''),
      (''subId'', JStr ''S100''),
      (''speciesCode'', JStr ''snoowl1''),
      (''userDisplayName'', JStr ''<Q>'')]"

definition example_net :: network where
  "example_net i req =
     (if i = 0 then BadStatus ''404 Client Error: Not Found'' else Payload (JList [example_raw]))"

definition example_env :: environment where
  "example_env =
     \<lparr> EBIRD_API_KEY = Some ''key'',
       config_file = Inr example_config,
       net = example_net,
       utc_now = ''2024-01-05 09:00 UTC'',
       mkdir_fails = False,
       write_json_fails = False,
       write_html_fails = False \<rparr>"

definition example_formatted :: json where
  "example_formatted = JObj
     [(''species'', JStr ''Snowy <b>Owl</b>''),
      (''scientific_name'', JStr ''Bubo scandiacus''),
      (''count'', JStr ''X''),
      (''location'', JStr ''Central Park''),
      (''date'', JStr ''2024-01-05 08:30''),
      (''lat'', JNull),
      (''lng'', JNull),
      (''checklist_url'', JStr ''https://ebird.org/checklist/S100''),
      (''species_url'', JStr ''https://ebird.org/species/snoowl1''),
      (''location_id'', JStr []),
      (''observer'', JStr ''<Q>''),
      (''is_valid'', JBool True),
      (''is_reviewed'', JBool False)]"

definition example_results :: "json list" where
  "example_results =
     [JObj [(''code'', JStr ''US-NY''), (''name'', JStr ''New York''),
            (''observations'', JList []), (''error'', JStr ''404 Client Error: Not Found'')],
      JObj [(''code'', JStr ''US-CA''), (''name'', JStr ''California''),
            (''observations'', JList [example_formatted])]]"

text \<open>A region with no observations whose configured name is markup.\<close>

definition example_markup_region :: json where
  \<open>example_markup_region = JObj
     [(''code'', JStr ''US-NY''), (''name'', JStr ''<div class="observation">''),
      (''observations'', JList [])]\<close>

text \<open>What the example run writes.\<close>

definition example_html :: string where
  "example_html =
     projr (generate_html no_repr example_results example_config ''2024-01-05 09:00 UTC'')"

definition example_out :: outputs where
  "example_out =
     \<lparr> data_json = JObj [(''last_updated'', JStr ''2024-01-05 09:00 UTC''),
                          (''config'', example_config),
                          (''regions'', JList example_results)],
       index_html = example_html \<rparr>"

text \<open>
  A network that answers the two requests of the example run, each recognised by
  its position, URL, header and query parameters, and nothing else.
\<close>

definition example_strict_net :: network where
  "example_strict_net i req =
     (if i = 0 \<and> req = \<lparr> url = ''https://api.ebird.org/v2/data/obs/US-NY/recent/notable'',
                            headers = [(''X-eBirdApiToken'', ''key'')],
                            params = [(''back'', JInt 7), (''maxResults'', JInt 100),
                                      (''detail'', JStr ''full'')] \<rparr>
      then BadStatus ''404 Client Error: Not Found''
      else if i = 1 \<and> req = \<lparr> url = ''https://api.ebird.org/v2/data/obs/US-CA/recent/notable'',
                                 headers = [(''X-eBirdApiToken'', ''key'')],
                                 params = [(''back'', JInt 7), (''maxResults'', JInt 100),
                                           (''detail'', JStr ''full'')] \<rparr>
      then Payload (JList [example_raw])
      else NoResponse)"

section \<open>Basic facts\<close>

lemma and_then_Inr [simp]: "and_then (Inr x) f = f x"
  by (simp add: and_then_def)

lemma and_then_Inl [simp]: "and_then (Inl e) f = Inl e"
  by (simp add: and_then_def)

lemma and_then_eq_Inr: "(and_then m f = Inr y) = (\<exists>x. m = Inr x \<and> f x = Inr y)"
  by (cases m) simp_all

lemma py_iter_Inl: "py_iter v = Inl e \<Longrightarrow> e = TypeError"
  by (cases v) simp_all

lemma format_observation_Inl: "format_observation fmt v = Inl e \<Longrightarrow> e = AttributeError"
  by (cases v) simp_all

lemma map_result_format_Inl:
  "map_result (format_observation fmt) xs = Inl e \<Longrightarrow> e = AttributeError"
proof (induction xs arbitrary: e)
  case Nil
  then show ?case by simp
next
  case (Cons x xs)
  show ?case
  proof (cases "format_observation fmt x")
    case (Inl a)
    with Cons.prems show ?thesis by (simp add: format_observation_Inl)
  next
    case (Inr y)
    with Cons.prems Cons.IH show ?thesis
      by (cases "map_result (format_observation fmt) xs") simp_all
  qed
qed

lemma region_entry_Inr:
  assumes "region_entry fmt nw key config i region = Inr e"
  shows "\<exists>c n. getitem region ''code'' = Inr c \<and> getitem region ''name'' = Inr n \<and>
           ((\<exists>msg. fetch_call fmt nw key config i region = Inl (HTTPError msg) \<and>
                   e = JObj [(''code'', c), (''name'', n), (''observations'', JList []),
                             (''error'', JStr msg)]) \<or>
            (\<exists>raw obs_list formatted.
                   fetch_call fmt nw key config i region = Inr raw \<and>
                   py_iter raw = Inr obs_list \<and>
                   map_result (format_observation fmt) obs_list = Inr formatted \<and>
                   e = JObj [(''code'', c), (''name'', n), (''observations'', JList formatted)]))"
proof -
  from assms obtain n c where n: "getitem region ''name'' = Inr n" and c: "getitem region ''code'' = Inr c"
    by (auto simp: region_entry_def and_then_eq_Inr)
  show ?thesis
  proof (cases "fetch_call fmt nw key config i region")
    case (Inl err)
    with assms n c show ?thesis
      by (cases err) (simp_all add: region_entry_def fetch_region_def)
  next
    case raw: (Inr raw)
    show ?thesis
    proof (cases "py_iter raw")
      case (Inl err)
      with assms n c raw py_iter_Inl [OF Inl] show ?thesis
        by (simp add: region_entry_def fetch_region_def)
    next
      case it: (Inr obs_list)
      show ?thesis
      proof (cases "map_result (format_observation fmt) obs_list")
        case (Inl err)
        with assms n c raw it map_result_format_Inl [OF Inl] show ?thesis
          by (simp add: region_entry_def fetch_region_def)
      next
        case (Inr formatted)
        with assms n c raw it show ?thesis
          by (simp add: region_entry_def fetch_region_def)
      qed
    qed
  qed
qed

lemma fetch_loop_Inr:
  "fetch_loop fmt nw key config i acc rs = Inr out \<Longrightarrow>
     \<exists>es. out = acc @ es \<and> length es = length rs \<and>
          (\<forall>j<length rs. region_entry fmt nw key config (i + j) (rs ! j) = Inr (es ! j))"
proof (induction rs arbitrary: i acc)
  case Nil
  then show ?case by simp
next
  case (Cons r rs)
  from Cons.prems obtain e where e: "region_entry fmt nw key config i r = Inr e"
    and rest: "fetch_loop fmt nw key config (Suc i) (acc @ [e]) rs = Inr out"
    by (auto simp: and_then_eq_Inr)
  from Cons.IH [OF rest] obtain es where es: "out = (acc @ [e]) @ es" "length es = length rs"
    "\<forall>j<length rs. region_entry fmt nw key config (Suc i + j) (rs ! j) = Inr (es ! j)"
    by blast
  have "\<forall>j<length (r # rs). region_entry fmt nw key config (i + j) ((r # rs) ! j) = Inr ((e # es) ! j)"
  proof (intro allI impI)
    fix j assume "j < length (r # rs)"
    then show "region_entry fmt nw key config (i + j) ((r # rs) ! j) = Inr ((e # es) ! j)"
      using e es(3) by (cases j) simp_all
  qed
  with es(1,2) show ?case
    by (intro exI [of _ "e # es"]) simp
qed

lemma fetch_loop_total:
  "\<forall>j<length rs. \<exists>e. region_entry fmt nw key config (i + j) (rs ! j) = Inr e \<Longrightarrow>
     \<exists>out. fetch_loop fmt nw key config i acc rs = Inr out"
proof (induction rs arbitrary: i acc)
  case Nil
  then show ?case by simp
next
  case (Cons r rs)
  from Cons.prems [rule_format, of 0] obtain e where e: "region_entry fmt nw key config i r = Inr e"
    by auto
  have "\<forall>j<length rs. \<exists>e. region_entry fmt nw key config (Suc i + j) (rs ! j) = Inr e"
    using Cons.prems by (auto dest: spec [of _ "Suc j" for j])
  from Cons.IH [OF this] e show ?case by simp
qed

lemma map_result_eq_Inr:
  "(map_result f xs = Inr ys) = (length ys = length xs \<and> (\<forall>j<length xs. f (xs ! j) = Inr (ys ! j)))"
proof (induction xs arbitrary: ys)
  case Nil
  then show ?case by auto
next
  case (Cons x xs)
  show ?case
  proof (cases ys)
    case Nil
    then show ?thesis by (auto simp: and_then_eq_Inr)
  next
    case (Cons y ys')
    have "(\<forall>j<Suc (length xs). f ((x # xs) ! j) = Inr ((y # ys') ! j)) =
          (f x = Inr y \<and> (\<forall>j<length xs. f (xs ! j) = Inr (ys' ! j)))"
      by (auto simp: less_Suc_eq_0_disj)
    with Cons Cons.IH [of ys'] show ?thesis
      by (auto simp: and_then_eq_Inr)
  qed
qed

lemma observations_loop_eq:
  "observations_loop fmt acc os =
     and_then (map_result (observation_html fmt) os) (\<lambda>items. Inr (acc @ concat items))"
proof (induction os arbitrary: acc)
  case Nil
  then show ?case by simp
next
  case (Cons a os)
  show ?case
    by (cases "observation_html fmt a"; cases "map_result (observation_html fmt) os")
       (simp_all add: Cons.IH)
qed

lemma regions_loop_eq:
  "regions_loop fmt acc rs =
     and_then (map_result (region_html fmt) rs) (\<lambda>secs. Inr (acc @ concat secs))"
proof (induction rs arbitrary: acc)
  case Nil
  then show ?case by simp
next
  case (Cons a rs)
  show ?case
    by (cases "region_html fmt a"; cases "map_result (region_html fmt) rs")
       (simp_all add: Cons.IH)
qed

lemma region_html_cong:
  assumes "getitem r ''name'' = getitem r' ''name''"
    and "getitem r ''observations'' = getitem r' ''observations''"
  shows "region_html fmt r = region_html fmt r'"
  unfolding region_html_def assms ..

lemma map_result_cong_all2:
  "list_all2 (\<lambda>x y. f x = g y) xs ys \<Longrightarrow> map_result f xs = map_result g ys"
  by (induction xs ys rule: list_all2_induct) simp_all

lemma generate_html_eq:
  "generate_html fmt rs config last_updated =
     and_then (map_result (region_html fmt) rs) (\<lambda>secs.
       Inr (page_head @ last_updated @ page_middle @ concat secs @ page_foot))"
  by (cases "map_result (region_html fmt) rs") (simp_all add: generate_html_def regions_loop_eq)


lemma sublist_here: "sublist x (x @ b)"
  by (rule sublist_append_rightI)

lemma sublist_later: "sublist x b \<Longrightarrow> sublist x (a @ b)"
  by (metis sublist_append_leftI sublist_order.order_trans)

lemma sublist_skip: "sublist x b \<Longrightarrow> sublist x (c # b)"
  using sublist_later [of x b "[c]"] by simp

lemma species_link_verbatim:
  assumes "species_link fmt obs = Inr sp" and "getitem obs ''species'' = Inr s"
  shows "sublist (py_str fmt s) sp"
proof (cases "getitem obs ''species_url''")
  case (Inl e)
  with assms show ?thesis by (simp add: species_link_def)
next
  case (Inr u)
  show ?thesis
  proof (cases "truthy u")
    case True
    with assms Inr have "sp = ''<a href=\"'' @ py_str fmt u @ ''\" target=\"_blank\">'' @ py_str fmt s @ ''</a>''"
      by (simp add: species_link_def)
    then show ?thesis
      by (simp only:) (rule sublist_here | rule sublist_later)+
  next
    case False
    with assms Inr have "sp = py_str fmt s"
      by (simp add: species_link_def)
    then show ?thesis by simp
  qed
qed

lemma observation_html_Inr:
  assumes "observation_html fmt obs = Inr item"
  obtains cnt chk sp sn loc dt where
    "count_str fmt obs = Inr cnt" "checklist_link fmt obs = Inr chk"
    "species_link fmt obs = Inr sp" "getitem obs ''scientific_name'' = Inr sn"
    "getitem obs ''location'' = Inr loc" "getitem obs ''date'' = Inr dt"
    "observation_html fmt obs = Inr item"
proof (cases "count_str fmt obs")
  case (Inl e) with assms show ?thesis by (simp add: observation_html_def)
next
  case cnt: (Inr cnt)
  show ?thesis
  proof (cases "checklist_link fmt obs")
    case (Inl e) with assms cnt show ?thesis by (simp add: observation_html_def)
  next
    case chk: (Inr chk)
    show ?thesis
    proof (cases "species_link fmt obs")
      case (Inl e) with assms cnt chk show ?thesis by (simp add: observation_html_def)
    next
      case sp: (Inr sp)
      show ?thesis
      proof (cases "getitem obs ''scientific_name''")
        case (Inl e) with assms cnt chk sp show ?thesis by (simp add: observation_html_def)
      next
        case sn: (Inr sn)
        show ?thesis
        proof (cases "getitem obs ''location''")
          case (Inl e) with assms cnt chk sp sn show ?thesis by (simp add: observation_html_def)
        next
          case loc: (Inr loc)
          show ?thesis
          proof (cases "getitem obs ''date''")
            case (Inl e) with assms cnt chk sp sn loc show ?thesis by (simp add: observation_html_def)
          next
            case dt: (Inr dt)
            from cnt chk sp sn loc dt assms show ?thesis by (rule that)
          qed
        qed
      qed
    qed
  qed
qed

lemma observation_html_verbatim:
  assumes "observation_html fmt obs = Inr item"
    and "getitem obs k = Inr v"
    and "k \<in> {''species'', ''scientific_name'', ''location'', ''date''}"
  shows "sublist (py_str fmt v) item"
proof -
  from assms(1) obtain cnt chk sp sn loc dt where
    p: "count_str fmt obs = Inr cnt" "checklist_link fmt obs = Inr chk"
       "species_link fmt obs = Inr sp" "getitem obs ''scientific_name'' = Inr sn"
       "getitem obs ''location'' = Inr loc" "getitem obs ''date'' = Inr dt"
    by (rule observation_html_Inr)
  have parts: "sublist sp item \<and> sublist (py_str fmt sn) item \<and> sublist (py_str fmt loc) item
      \<and> sublist (py_str fmt dt) item"
    using assms(1) unfolding observation_html_def p and_then_Inr sum.inject
    by hypsubst (intro conjI; (rule sublist_here | rule sublist_later)+)
  from assms(3) consider "k = ''species''" | "k = ''scientific_name''" | "k = ''location''" | "k = ''date''"
    by blast
  then show ?thesis
  proof cases
    case 1
    with assms(2) p(3) have "sublist (py_str fmt v) sp"
      by (simp add: species_link_verbatim)
    with parts show ?thesis
      by (blast intro: sublist_order.order_trans)
  next
    case 2 with assms(2) p(4) parts show ?thesis by simp
  next
    case 3 with assms(2) p(5) parts show ?thesis by simp
  next
    case 4 with assms(2) p(6) parts show ?thesis by simp
  qed
qed

lemma observation_html_formatted:
  assumes "format_observation fmt obs = Inr f"
  shows "\<exists>item. observation_html fmt f = Inr item"
proof (cases obs)
  case (JObj kvs)
  with assms have f: "f = JObj
     [(''species'', get kvs ''comName'' (JStr ''Unknown'')),
      (''scientific_name'', get kvs ''sciName'' (JStr '''')),
      (''count'', get kvs ''howMany'' (JStr ''X'')),
      (''location'', get kvs ''locName'' (JStr ''Unknown location'')),
      (''date'', get kvs ''obsDt'' (JStr '''')),
      (''lat'', get kvs ''lat'' JNull),
      (''lng'', get kvs ''lng'' JNull),
      (''checklist_url'', derived_url fmt ''https://ebird.org/checklist/'' kvs ''subId''),
      (''species_url'', derived_url fmt ''https://ebird.org/species/'' kvs ''speciesCode''),
      (''location_id'', get kvs ''locId'' (JStr '''')),
      (''observer'', get kvs ''userDisplayName'' (JStr '''')),
      (''is_valid'', get kvs ''obsValid'' (JBool True)),
      (''is_reviewed'', get kvs ''obsReviewed'' (JBool False))]"
    by simp
  have "\<exists>c. count_str fmt f = Inr c"
    unfolding f count_str_def by simp
  moreover have "\<exists>c. checklist_link fmt f = Inr c"
    unfolding f checklist_link_def by simp
  moreover have "\<exists>c. species_link fmt f = Inr c"
    unfolding f species_link_def by simp
  moreover have "\<exists>c. getitem f ''scientific_name'' = Inr c" "\<exists>c. getitem f ''location'' = Inr c"
    "\<exists>c. getitem f ''date'' = Inr c"
    unfolding f by simp_all
  ultimately show ?thesis
    unfolding observation_html_def by (elim exE) (simp only: and_then_Inr, blast)
qed (use assms in simp_all)

lemma map_result_total:
  "(\<forall>x\<in>set xs. \<exists>y. f x = Inr y) \<Longrightarrow> \<exists>ys. map_result f xs = Inr ys"
proof (induction xs)
  case Nil
  then show ?case by simp
next
  case (Cons x xs)
  then obtain y ys where "f x = Inr y" "map_result f xs = Inr ys"
    by auto
  then show ?case by simp
qed

lemma map_result_set:
  "map_result f xs = Inr ys \<Longrightarrow> y \<in> set ys \<Longrightarrow> \<exists>x\<in>set xs. f x = Inr y"
  by (metis in_set_conv_nth map_result_eq_Inr)

lemma map_result_mem:
  "map_result f xs = Inr ys \<Longrightarrow> x \<in> set xs \<Longrightarrow> \<exists>y\<in>set ys. f x = Inr y"
  by (metis in_set_conv_nth map_result_eq_Inr)

lemma region_html_listed:
  assumes "getitem r ''name'' = Inr n" and "getitem r ''observations'' = Inr (JList os)"
    and "\<forall>obs\<in>set os. \<exists>item. observation_html fmt obs = Inr item"
  shows "\<exists>sec. region_html fmt r = Inr sec"
proof -
  from assms(3) obtain items where "map_result (observation_html fmt) os = Inr items"
    using map_result_total by blast
  then show ?thesis
    unfolding region_html_def assms(1,2) and_then_Inr
    by (cases "os = []") (simp_all add: observations_loop_eq)
qed

lemma region_html_entry:
  assumes "region_entry fmt nw key config i region = Inr e"
  shows "\<exists>sec. region_html fmt e = Inr sec"
proof -
  from region_entry_Inr [OF assms] obtain c n where
    e: "(\<exists>msg. e = JObj [(''code'', c), (''name'', n), (''observations'', JList []),
                             (''error'', JStr msg)]) \<or>
        (\<exists>obs_list formatted. map_result (format_observation fmt) obs_list = Inr formatted \<and>
             e = JObj [(''code'', c), (''name'', n), (''observations'', JList formatted)])"
    by blast
  then show ?thesis
  proof (elim disjE exE conjE)
    fix msg
    assume "e = JObj [(''code'', c), (''name'', n), (''observations'', JList []), (''error'', JStr msg)]"
    then have "getitem e ''name'' = Inr n" "getitem e ''observations'' = Inr (JList [])"
      by simp_all
    then show ?thesis
      by (rule region_html_listed) simp
  next
    fix obs_list formatted
    assume m: "map_result (format_observation fmt) obs_list = Inr formatted"
      and "e = JObj [(''code'', c), (''name'', n), (''observations'', JList formatted)]"
    then have g: "getitem e ''name'' = Inr n" "getitem e ''observations'' = Inr (JList formatted)"
      by simp_all
    have "\<forall>obs\<in>set formatted. \<exists>item. observation_html fmt obs = Inr item"
      using map_result_set [OF m] observation_html_formatted by blast
    with g show ?thesis
      by (rule region_html_listed)
  qed
qed

lemma generate_html_entries:
  assumes "length es = length rs"
    and "\<forall>j<length rs. region_entry fmt nw key config (i + j) (rs ! j) = Inr (es ! j)"
  shows "\<exists>html. generate_html fmt es config last_updated = Inr html"
proof -
  have "\<forall>e\<in>set es. \<exists>sec. region_html fmt e = Inr sec"
    using assms region_html_entry by (metis in_set_conv_nth)
  then obtain secs where "map_result (region_html fmt) es = Inr secs"
    using map_result_total by blast
  then show ?thesis
    by (simp add: generate_html_eq)
qed

lemma main_Inr:
  assumes "main fmt env = Inr out"
  obtains key config regions rs es where
    "EBIRD_API_KEY env = Some key" "key \<noteq> []" "config_file env = Inr config"
    "getitem config ''regions'' = Inr regions" "py_iter regions = Inr rs"
    "length es = length rs"
    "\<forall>j<length rs. region_entry fmt (net env) key config j (rs ! j) = Inr (es ! j)"
    "data_json out = JObj [(''last_updated'', JStr (utc_now env)), (''config'', config),
                            (''regions'', JList es)]"
    "generate_html fmt es config (utc_now env) = Inr (index_html out)"
proof -
  from assms obtain key where key: "EBIRD_API_KEY env = Some key" "key \<noteq> []"
    by (cases "EBIRD_API_KEY env") (auto simp: main_def split: if_splits)
  from assms key obtain config where config: "config_file env = Inr config"
    by (cases "config_file env") (simp_all add: main_def load_config_def)
  from assms key config obtain regions where regions: "getitem config ''regions'' = Inr regions"
    by (cases "getitem config ''regions''") (simp_all add: main_def load_config_def)
  from assms key config regions obtain rs where rs: "py_iter regions = Inr rs"
    by (cases "py_iter regions") (simp_all add: main_def load_config_def)
  from assms key config regions rs obtain es where
    loop: "fetch_loop fmt (net env) key config 0 [] rs = Inr es"
    by (cases "fetch_loop fmt (net env) key config 0 [] rs") (simp_all add: main_def load_config_def)
  from assms key config regions rs loop obtain html where
    html: "generate_html fmt es config (utc_now env) = Inr html"
    by (cases "generate_html fmt es config (utc_now env)")
       (simp_all add: main_def load_config_def Let_def split: if_splits)
  from assms key config regions rs loop html have
    out: "out = \<lparr> data_json = JObj [(''last_updated'', JStr (utc_now env)), (''config'', config),
                            (''regions'', JList es)], index_html = html \<rparr>"
    by (simp add: main_def load_config_def Let_def split: if_splits)
  from fetch_loop_Inr [OF loop] have
    "length es = length rs"
    "\<forall>j<length rs. region_entry fmt (net env) key config j (rs ! j) = Inr (es ! j)"
    by auto
  with key config regions rs html out show ?thesis
    by (intro that [of key config regions rs es]) simp_all
qed

lemma main_total:
  assumes "EBIRD_API_KEY env = Some key" "key \<noteq> []" "config_file env = Inr config"
    "getitem config ''regions'' = Inr regions" "py_iter regions = Inr rs"
    "\<forall>j<length rs. \<exists>e. region_entry fmt (net env) key config j (rs ! j) = Inr e"
    "\<not> mkdir_fails env" "\<not> write_json_fails env" "\<not> write_html_fails env"
  shows "\<exists>out. main fmt env = Inr out"
proof -
  from assms(6) obtain es where loop: "fetch_loop fmt (net env) key config 0 [] rs = Inr es"
    using fetch_loop_total [of rs fmt "net env" key config 0 "[]"] by auto
  from fetch_loop_Inr [OF loop] have
    "length es = length rs"
    "\<forall>j<length rs. region_entry fmt (net env) key config (0 + j) (rs ! j) = Inr (es ! j)"
    by auto
  then obtain html where "generate_html fmt es config (utc_now env) = Inr html"
    using generate_html_entries by blast
  with assms loop show ?thesis
    by (simp add: main_def load_config_def Let_def)
qed

lemma sublist_sandwich:
  assumes A: "A \<noteq> []" "last A \<notin> set (butlast x)"
    and B: "B \<noteq> []" "hd B \<notin> set (tl x)"
  shows "sublist x (A @ N @ B) \<longleftrightarrow> sublist x A \<or> sublist x N \<or> sublist x B"
proof
  assume "sublist x A \<or> sublist x N \<or> sublist x B"
  then show "sublist x (A @ N @ B)"
    by (auto simp: sublist_append)
next
  assume "sublist x (A @ N @ B)"
  then consider "sublist x A" | "sublist x (N @ B)"
    | x1 x2 where "x = x1 @ x2" "suffix x1 A" "prefix x2 (N @ B)"
    unfolding sublist_append [of x A] by blast
  then have "sublist x A \<or> sublist x (N @ B)"
  proof cases
    case 3
    show ?thesis
    proof (cases "x1 = [] \<or> x2 = []")
      case True
      with 3 show ?thesis by auto
    next
      case False
      with 3(2) A(1) have "last x1 = last A"
        by (auto simp: suffix_def)
      moreover from False 3(1) have "last x1 \<in> set (butlast x)"
        by (simp add: butlast_append)
      ultimately show ?thesis using A(2) by simp
    qed
  qed simp_all
  moreover have "sublist x N \<or> sublist x B" if "sublist x (N @ B)"
  proof -
    from that consider "sublist x N" | "sublist x B"
      | x1 x2 where "x = x1 @ x2" "suffix x1 N" "prefix x2 B"
      unfolding sublist_append [of x N] by blast
    then show ?thesis
    proof cases
      case 3
      show ?thesis
      proof (cases "x1 = [] \<or> x2 = []")
        case True
        with 3 show ?thesis by auto
      next
        case False
        with 3(3) B(1) have "hd x2 = hd B"
          by (auto simp: prefix_def)
        moreover from False 3(1) have "hd x2 \<in> set (tl x)"
          by (cases x1) auto
        ultimately show ?thesis using B(2) by simp
      qed
    qed simp_all
  qed
  ultimately show "sublist x A \<or> sublist x N \<or> sublist x B"
    by blast
qed

lemma no_card_before: \<open>\<not> sublist ''<div class="observation">''
    (''\<newline>        <section class="region">\<newline>            <h2>'')\<close>
  by code_simp

lemma no_card_after: \<open>\<not> sublist ''<div class="observation">''
    (''</h2>\<newline>            <div class="observations">\<newline>                <p>No notable sightings in the past week.</p>\<newline>            </div>\<newline>        </section>\<newline>        '')\<close>
  by code_simp

lemma derived_url_null:
  "(derived_url fmt base obs k \<noteq> JNull) = (\<exists>v. map_of obs k = Some v \<and> truthy v)"
  by (cases "map_of obs k") (simp_all add: derived_url_def get_def)

lemma derived_url_value:
  "map_of obs k = Some v \<Longrightarrow> truthy v \<Longrightarrow> derived_url fmt base obs k = JStr (base @ py_str fmt v)"
  by (simp add: derived_url_def get_def)

lemma derived_url_string:
  "map_of obs k = Some (JStr s) \<Longrightarrow>
     derived_url fmt base obs k = (if s = [] then JNull else JStr (base @ s))"
  by (simp add: derived_url_def get_def)

lemma derived_url_absent: "map_of obs k = None \<Longrightarrow> derived_url fmt base obs k = JNull"
  by (simp add: derived_url_def get_def)

section \<open>The example run, evaluated\<close>

lemma example_format: "format_observation no_repr example_raw = Inr example_formatted"
  by (simp add: example_raw_def example_formatted_def get_def derived_url_def)

lemma example_fetch_loop:
  "fetch_loop no_repr example_net ''key'' example_config 0 [] example_regions = Inr example_results"
proof -
  have first: "region_entry no_repr example_net ''key'' example_config 0
      (JObj [(''code'', JStr ''US-NY''), (''name'', JStr ''New York'')]) =
      Inr (JObj [(''code'', JStr ''US-NY''), (''name'', JStr ''New York''),
            (''observations'', JList []), (''error'', JStr ''404 Client Error: Not Found'')])"
    by (simp add: region_entry_def fetch_region_def fetch_call_def
        fetch_notable_observations_def example_net_def example_config_def)
  have second: "region_entry no_repr example_net ''key'' example_config (Suc 0)
      (JObj [(''code'', JStr ''US-CA''), (''name'', JStr ''California'')]) =
      Inr (JObj [(''code'', JStr ''US-CA''), (''name'', JStr ''California''),
            (''observations'', JList [example_formatted])])"
    by (simp add: region_entry_def fetch_region_def fetch_call_def
        fetch_notable_observations_def example_net_def example_config_def example_format)
  show ?thesis
    by (simp add: example_regions_def example_results_def first second)
qed

lemma example_html_returns:
  "generate_html no_repr example_results example_config ''2024-01-05 09:00 UTC'' = Inr example_html"
proof -
  from fetch_loop_Inr [OF example_fetch_loop]
  have "\<exists>html. generate_html no_repr example_results example_config ''2024-01-05 09:00 UTC'' = Inr html"
    by (intro generate_html_entries [where rs = example_regions and i = 0]) auto
  then show ?thesis
    by (auto simp: example_html_def)
qed

lemma getitem_example_regions: "getitem example_config ''regions'' = Inr (JList example_regions)"
  by (simp add: example_config_def)

lemma example_main: "main no_repr example_env = Inr example_out"
  by (simp add: main_def load_config_def example_env_def example_out_def
      example_fetch_loop example_html_returns getitem_example_regions)

section \<open>Observation formatter: totality, defaults and derived links\<close>

text \<open>
  C2. \<open>format_observation\<close> is total on mappings: whatever subset of the raw
  fields the input dict holds, it returns a dict with exactly the thirteen
  output keys, and a field that is absent from the input gets its default:
  species \<open>"Unknown"\<close>, scientific name \<open>""\<close>, count \<open>"X"\<close>, location
  \<open>"Unknown location"\<close>, date \<open>""\<close>, observer \<open>""\<close>, is_valid true,
  is_reviewed false.
\<close>

theorem format_observation_total:
  "\<exists>out. format_observation fmt (JObj obs) = Inr (JObj out) \<and>
     map fst out =
       [''species'', ''scientific_name'', ''count'', ''location'', ''date'', ''lat'', ''lng'',
        ''checklist_url'', ''species_url'', ''location_id'', ''observer'', ''is_valid'',
        ''is_reviewed''] \<and>
     (map_of obs ''comName'' = None \<longrightarrow> map_of out ''species'' = Some (JStr ''Unknown'')) \<and>
     (map_of obs ''sciName'' = None \<longrightarrow> map_of out ''scientific_name'' = Some (JStr [])) \<and>
     (map_of obs ''howMany'' = None \<longrightarrow> map_of out ''count'' = Some (JStr ''X'')) \<and>
     (map_of obs ''locName'' = None \<longrightarrow>
        map_of out ''location'' = Some (JStr ''Unknown location'')) \<and>
     (map_of obs ''obsDt'' = None \<longrightarrow> map_of out ''date'' = Some (JStr [])) \<and>
     (map_of obs ''userDisplayName'' = None \<longrightarrow> map_of out ''observer'' = Some (JStr [])) \<and>
     (map_of obs ''obsValid'' = None \<longrightarrow> map_of out ''is_valid'' = Some (JBool True)) \<and>
     (map_of obs ''obsReviewed'' = None \<longrightarrow> map_of out ''is_reviewed'' = Some (JBool False))"
  by (simp add: get_def)

theorem format_observation_total_witness:
  "map_of [(''comName'', JStr ''Snowy Owl'')] ''howMany'' = None \<and>
   (\<exists>out. format_observation no_repr (JObj [(''comName'', JStr ''Snowy Owl'')]) = Inr (JObj out) \<and>
      length out = 13 \<and>
      map_of out ''species'' = Some (JStr ''Snowy Owl'') \<and>
      map_of out ''scientific_name'' = Some (JStr []) \<and>
      map_of out ''count'' = Some (JStr ''X'') \<and>
      map_of out ''location'' = Some (JStr ''Unknown location'') \<and>
      map_of out ''date'' = Some (JStr []) \<and>
      map_of out ''observer'' = Some (JStr []) \<and>
      map_of out ''is_valid'' = Some (JBool True) \<and>
      map_of out ''is_reviewed'' = Some (JBool False))"
proof -
  from format_observation_total [of no_repr "[(''comName'', JStr ''Snowy Owl'')]"]
  obtain out where out: "format_observation no_repr (JObj [(''comName'', JStr ''Snowy Owl'')]) = Inr (JObj out)"
    and keys: "map fst out =
       [''species'', ''scientific_name'', ''count'', ''location'', ''date'', ''lat'', ''lng'',
        ''checklist_url'', ''species_url'', ''location_id'', ''observer'', ''is_valid'',
        ''is_reviewed'']"
    and defaults: "map_of out ''scientific_name'' = Some (JStr [])"
      "map_of out ''count'' = Some (JStr ''X'')"
      "map_of out ''location'' = Some (JStr ''Unknown location'')"
      "map_of out ''date'' = Some (JStr [])"
      "map_of out ''observer'' = Some (JStr [])"
      "map_of out ''is_valid'' = Some (JBool True)"
      "map_of out ''is_reviewed'' = Some (JBool False)"
    by auto
  from keys have "length (map fst out) = 13"
    by simp
  then have len: "length out = 13"
    by simp
  from out have "map_of out ''species'' = Some (JStr ''Snowy Owl'')"
    by (auto simp: get_def)
  with out len defaults show ?thesis
    by simp
qed

text \<open>
  C3. The checklist link is non-null exactly when \<open>subId\<close> is present with a
  value that is true in Python's sense, which for a string means non-empty, and
  is then \<open>https://ebird.org/checklist/\<close> followed by the text of the value;
  an absent or empty \<open>subId\<close> gives null. The species link follows
  \<open>speciesCode\<close> in the same way, under \<open>https://ebird.org/species/\<close>.
\<close>

theorem derived_urls:
  "\<exists>out. format_observation fmt (JObj obs) = Inr (JObj out) \<and>
     ((map_of out ''checklist_url'' \<noteq> Some JNull) =
        (\<exists>v. map_of obs ''subId'' = Some v \<and> truthy v)) \<and>
     (\<forall>v. map_of obs ''subId'' = Some v \<longrightarrow> truthy v \<longrightarrow>
        map_of out ''checklist_url'' =
          Some (JStr (''https://ebird.org/checklist/'' @ py_str fmt v))) \<and>
     (\<forall>s. map_of obs ''subId'' = Some (JStr s) \<longrightarrow>
        map_of out ''checklist_url'' =
          Some (if s = [] then JNull else JStr (''https://ebird.org/checklist/'' @ s))) \<and>
     (map_of obs ''subId'' = None \<longrightarrow> map_of out ''checklist_url'' = Some JNull) \<and>
     ((map_of out ''species_url'' \<noteq> Some JNull) =
        (\<exists>v. map_of obs ''speciesCode'' = Some v \<and> truthy v)) \<and>
     (\<forall>v. map_of obs ''speciesCode'' = Some v \<longrightarrow> truthy v \<longrightarrow>
        map_of out ''species_url'' =
          Some (JStr (''https://ebird.org/species/'' @ py_str fmt v))) \<and>
     (\<forall>s. map_of obs ''speciesCode'' = Some (JStr s) \<longrightarrow>
        map_of out ''species_url'' =
          Some (if s = [] then JNull else JStr (''https://ebird.org/species/'' @ s))) \<and>
     (map_of obs ''speciesCode'' = None \<longrightarrow> map_of out ''species_url'' = Some JNull)"
  by (simp add: derived_url_null derived_url_value derived_url_string derived_url_absent)

theorem derived_urls_witness:
  "\<exists>out. format_observation no_repr
            (JObj [(''subId'', JStr ''S100''), (''speciesCode'', JStr [])]) = Inr (JObj out) \<and>
      map_of out ''checklist_url'' = Some (JStr ''https://ebird.org/checklist/S100'') \<and>
      map_of out ''species_url'' = Some JNull"
proof -
  from derived_urls [of no_repr "[(''subId'', JStr ''S100''), (''speciesCode'', JStr [])]"]
  obtain out where
    "format_observation no_repr
       (JObj [(''subId'', JStr ''S100''), (''speciesCode'', JStr [])]) = Inr (JObj out)"
    "\<forall>s. map_of [(''subId'', JStr ''S100''), (''speciesCode'', JStr [])] ''subId'' = Some (JStr s) \<longrightarrow>
        map_of out ''checklist_url'' =
          Some (if s = [] then JNull else JStr (''https://ebird.org/checklist/'' @ s))"
    "\<forall>s. map_of [(''subId'', JStr ''S100''), (''speciesCode'', JStr [])] ''speciesCode'' = Some (JStr s) \<longrightarrow>
        map_of out ''species_url'' =
          Some (if s = [] then JNull else JStr (''https://ebird.org/species/'' @ s))"
    by blast
  then show ?thesis
    by (intro exI [of _ out]) simp
qed

section \<open>Orchestrator: one result per region, in order\<close>

text \<open>
  C1. Whenever \<open>main\<close> returns, the \<open>regions\<close> list of the value it wrote
  to \<open>data.json\<close> has one entry per configured region, in the configured
  order, and the \<open>i\<close>-th entry carries the code and the name of the \<open>i\<close>-th
  region. The network is arbitrary: nothing is assumed about which requests
  succeed and which fail with an HTTP error.
\<close>

theorem region_results_follow_configuration:
  assumes "main fmt env = Inr out"
    and "config_file env = Inr config"
    and "getitem config ''regions'' = Inr (JList rs)"
  shows "\<exists>es. getitem (data_json out) ''regions'' = Inr (JList es) \<and>
           length es = length rs \<and>
           (\<forall>i<length rs.
              getitem (es ! i) ''code'' = getitem (rs ! i) ''code'' \<and>
              getitem (es ! i) ''name'' = getitem (rs ! i) ''name'')"
proof -
  from assms(1) obtain key config' regions rs' es where run:
    "config_file env = Inr config'" "getitem config' ''regions'' = Inr regions"
    "py_iter regions = Inr rs'" "length es = length rs'"
    "\<forall>j<length rs'. region_entry fmt (net env) key config' j (rs' ! j) = Inr (es ! j)"
    "data_json out = JObj [(''last_updated'', JStr (utc_now env)), (''config'', config'),
                            (''regions'', JList es)]"
    by (rule main_Inr)
  from run(1,2,3) assms(2,3) have same: "config' = config" "rs' = rs"
    by simp_all
  have "getitem (es ! i) ''code'' = getitem (rs ! i) ''code'' \<and>
        getitem (es ! i) ''name'' = getitem (rs ! i) ''name''" if "i < length rs" for i
  proof -
    from that run(5) same have "region_entry fmt (net env) key config i (rs ! i) = Inr (es ! i)"
      by simp
    from region_entry_Inr [OF this] show ?thesis
      by auto
  qed
  with run(4,6) same show ?thesis
    by simp
qed

theorem region_results_follow_configuration_witness:
  "main no_repr example_env = Inr example_out \<and>
   getitem example_config ''regions'' = Inr (JList example_regions) \<and>
   (\<exists>es. getitem (data_json example_out) ''regions'' = Inr (JList es) \<and>
      length es = 2 \<and>
      getitem (es ! 0) ''code'' = Inr (JStr ''US-NY'') \<and>
      getitem (es ! 0) ''name'' = Inr (JStr ''New York'') \<and>
      getitem (es ! 1) ''code'' = Inr (JStr ''US-CA'') \<and>
      getitem (es ! 1) ''name'' = Inr (JStr ''California''))"
proof -
  have cfg: "config_file example_env = Inr example_config"
    by (simp add: example_env_def)
  from region_results_follow_configuration [OF example_main cfg getitem_example_regions]
  obtain es where es: "getitem (data_json example_out) ''regions'' = Inr (JList es)"
    "length es = length example_regions"
    "\<forall>i<length example_regions.
        getitem (es ! i) ''code'' = getitem (example_regions ! i) ''code'' \<and>
        getitem (es ! i) ''name'' = getitem (example_regions ! i) ''name''"
    by blast
  from es(3) [rule_format, of 0] es(3) [rule_format, of 1]
  have "getitem (es ! 0) ''code'' = Inr (JStr ''US-NY'')"
    "getitem (es ! 0) ''name'' = Inr (JStr ''New York'')"
    "getitem (es ! 1) ''code'' = Inr (JStr ''US-CA'')"
    "getitem (es ! 1) ''name'' = Inr (JStr ''California'')"
    by (simp_all add: example_regions_def)
  with es(1,2) example_main getitem_example_regions show ?thesis
    by (intro conjI exI [of _ es]) (simp_all add: example_regions_def)
qed

section \<open>Orchestrator: a failed request is recorded and the run goes on\<close>

lemma fetch_call_HTTPError:
  assumes "fetch_call fmt nw key config i region = Inl (HTTPError msg)"
  shows "\<exists>req. nw i req = BadStatus msg"
proof (cases "getitem region ''code''")
  case (Inl e)
  with assms show ?thesis
    by (cases region) (auto simp: fetch_call_def split: option.splits)
next
  case code: (Inr c)
  show ?thesis
  proof (cases config)
    case (JObj kvs)
    with assms code show ?thesis
      by (auto simp: fetch_call_def fetch_notable_observations_def Let_def
          split: net_outcome.splits)
  qed (use assms code in \<open>simp_all add: fetch_call_def\<close>)
qed

lemma map_result_format_dicts:
  "\<forall>obs\<in>set os. \<exists>kvs. obs = JObj kvs \<Longrightarrow>
     \<exists>formatted. map_result (format_observation fmt) os = Inr formatted"
  by (rule map_result_total) auto

lemma region_entry_failed:
  assumes "getitem region ''code'' = Inr c" and "getitem region ''name'' = Inr n"
    and "fetch_call fmt nw key config i region = Inl (HTTPError msg)"
  shows "region_entry fmt nw key config i region =
           Inr (JObj [(''code'', c), (''name'', n), (''observations'', JList []),
                      (''error'', JStr msg)])"
  using assms by (simp add: region_entry_def fetch_region_def)

lemma region_entry_fetched:
  assumes "getitem region ''code'' = Inr c" and "getitem region ''name'' = Inr n"
    and "fetch_call fmt nw key config i region = Inr (JList os)"
    and "map_result (format_observation fmt) os = Inr formatted"
  shows "region_entry fmt nw key config i region =
           Inr (JObj [(''code'', c), (''name'', n), (''observations'', JList formatted)])"
  using assms by (simp add: region_entry_def fetch_region_def)

text \<open>
  C4. Take a run with the API key set, a configuration whose regions all have a
  code and a name, no failing file operation, and a network on which every
  request either fails with an HTTP error (whose message is not empty) or
  returns a list of dicts. Then \<open>main\<close> returns, so the process exits with
  status 0; every region has its entry; the entry of a region whose request
  failed with an HTTP error has \<open>observations\<close> equal to the empty list and
  \<open>error\<close> equal to the non-empty message; and every other region, also after
  a failed one, has its formatted observations.
\<close>

theorem http_error_is_recorded_and_run_continues:
  assumes "EBIRD_API_KEY env = Some key" and "key \<noteq> []"
    and "config_file env = Inr config"
    and "getitem config ''regions'' = Inr (JList rs)"
    and "\<forall>r\<in>set rs. \<exists>c n. getitem r ''code'' = Inr c \<and> getitem r ''name'' = Inr n"
    and "\<forall>i<length rs.
           (\<exists>msg. fetch_call fmt (net env) key config i (rs ! i) = Inl (HTTPError msg)) \<or>
           (\<exists>os. fetch_call fmt (net env) key config i (rs ! i) = Inr (JList os) \<and>
                 (\<forall>obs\<in>set os. \<exists>kvs. obs = JObj kvs))"
    and "\<forall>i req msg. net env i req = BadStatus msg \<longrightarrow> msg \<noteq> []"
    and "\<not> mkdir_fails env" and "\<not> write_json_fails env" and "\<not> write_html_fails env"
  shows "\<exists>out es. main fmt env = Inr out \<and> exit_status (main fmt env) = 0 \<and>
           getitem (data_json out) ''regions'' = Inr (JList es) \<and>
           length es = length rs \<and>
           (\<forall>i<length rs. \<forall>msg.
              fetch_call fmt (net env) key config i (rs ! i) = Inl (HTTPError msg) \<longrightarrow>
                msg \<noteq> [] \<and>
                getitem (es ! i) ''observations'' = Inr (JList []) \<and>
                getitem (es ! i) ''error'' = Inr (JStr msg)) \<and>
           (\<forall>i<length rs. \<forall>os.
              fetch_call fmt (net env) key config i (rs ! i) = Inr (JList os) \<longrightarrow>
                (\<exists>formatted. map_result (format_observation fmt) os = Inr formatted \<and>
                   getitem (es ! i) ''observations'' = Inr (JList formatted)))"
proof -
  have entry: "\<exists>e. region_entry fmt (net env) key config i (rs ! i) = Inr e" if "i < length rs" for i
  proof -
    from that assms(5) obtain c n where
      cn: "getitem (rs ! i) ''code'' = Inr c" "getitem (rs ! i) ''name'' = Inr n"
      by (meson nth_mem)
    from that assms(6) consider
      msg where "fetch_call fmt (net env) key config i (rs ! i) = Inl (HTTPError msg)"
      | os where "fetch_call fmt (net env) key config i (rs ! i) = Inr (JList os)"
        "\<forall>obs\<in>set os. \<exists>kvs. obs = JObj kvs"
      by blast
    then show ?thesis
    proof cases
      case 1
      from region_entry_failed [OF cn 1] show ?thesis
        by blast
    next
      case 2
      from map_result_format_dicts [OF 2(2)] obtain formatted where
        "map_result (format_observation fmt) os = Inr formatted"
        by blast
      from region_entry_fetched [OF cn 2(1) this] show ?thesis
        by blast
    qed
  qed
  have iter: "py_iter (JList rs) = Inr rs"
    by simp
  from entry have "\<forall>j<length rs. \<exists>e. region_entry fmt (net env) key config j (rs ! j) = Inr e"
    by blast
  from main_total [OF assms(1,2,3,4) iter this assms(8,9,10)]
  obtain out where out: "main fmt env = Inr out"
    by blast
  from out obtain key' config' regions rs' es where run:
    "EBIRD_API_KEY env = Some key'" "config_file env = Inr config'"
    "getitem config' ''regions'' = Inr regions"
    "py_iter regions = Inr rs'" "length es = length rs'"
    "\<forall>j<length rs'. region_entry fmt (net env) key' config' j (rs' ! j) = Inr (es ! j)"
    "data_json out = JObj [(''last_updated'', JStr (utc_now env)), (''config'', config'),
                            (''regions'', JList es)]"
    by (rule main_Inr)
  from run(1,2,3,4) assms(1,3,4) have same: "key' = key" "config' = config" "rs' = rs"
    by simp_all
  have failed: "msg \<noteq> [] \<and> getitem (es ! i) ''observations'' = Inr (JList []) \<and>
      getitem (es ! i) ''error'' = Inr (JStr msg)"
    if "i < length rs" and f: "fetch_call fmt (net env) key config i (rs ! i) = Inl (HTTPError msg)"
    for i msg
  proof -
    from that(1) assms(5) obtain c n where
      cn: "getitem (rs ! i) ''code'' = Inr c" "getitem (rs ! i) ''name'' = Inr n"
      by (meson nth_mem)
    from that(1) run(6) same have "region_entry fmt (net env) key config i (rs ! i) = Inr (es ! i)"
      by simp
    with region_entry_failed [OF cn f] have "es ! i =
        JObj [(''code'', c), (''name'', n), (''observations'', JList []), (''error'', JStr msg)]"
      by simp
    moreover from fetch_call_HTTPError [OF f] assms(7) have "msg \<noteq> []"
      by blast
    ultimately show ?thesis
      by simp
  qed
  have fetched: "\<exists>formatted. map_result (format_observation fmt) os = Inr formatted \<and>
      getitem (es ! i) ''observations'' = Inr (JList formatted)"
    if "i < length rs" and f: "fetch_call fmt (net env) key config i (rs ! i) = Inr (JList os)"
    for i os
  proof -
    from that(1) run(6) same have e: "region_entry fmt (net env) key config i (rs ! i) = Inr (es ! i)"
      by simp
    from region_entry_Inr [OF e] f obtain c n formatted where
      "map_result (format_observation fmt) os = Inr formatted"
      "es ! i = JObj [(''code'', c), (''name'', n), (''observations'', JList formatted)]"
      by auto
    then show ?thesis
      by simp
  qed
  from out run(5,7) same failed fetched show ?thesis
    by (intro exI [of _ out] exI [of _ es]) (simp add: exit_status_def)
qed

lemma example_fetch_failed:
  "fetch_call no_repr example_net ''key'' example_config 0 (example_regions ! 0) =
     Inl (HTTPError ''404 Client Error: Not Found'')"
  by (simp add: fetch_call_def fetch_notable_observations_def example_net_def
      example_config_def example_regions_def)

lemma example_fetch_returned:
  "fetch_call no_repr example_net ''key'' example_config 1 (example_regions ! 1) =
     Inr (JList [example_raw])"
  by (simp add: fetch_call_def fetch_notable_observations_def example_net_def
      example_config_def example_regions_def)

lemma example_regions_entries:
  "getitem (data_json example_out) ''regions'' = Inr (JList example_results)"
  by (simp add: example_out_def)

theorem http_error_is_recorded_and_run_continues_witness:
  "main no_repr example_env = Inr example_out \<and>
   exit_status (main no_repr example_env) = 0 \<and>
   fetch_call no_repr example_net ''key'' example_config 0 (example_regions ! 0) =
     Inl (HTTPError ''404 Client Error: Not Found'') \<and>
   getitem (example_results ! 0) ''observations'' = Inr (JList []) \<and>
   getitem (example_results ! 0) ''error'' = Inr (JStr ''404 Client Error: Not Found'') \<and>
   fetch_call no_repr example_net ''key'' example_config 1 (example_regions ! 1) =
     Inr (JList [example_raw]) \<and>
   getitem (example_results ! 1) ''observations'' = Inr (JList [example_formatted])"
proof -
  have env: "EBIRD_API_KEY example_env = Some ''key''" "''key'' \<noteq> []"
    "config_file example_env = Inr example_config"
    "\<not> mkdir_fails example_env" "\<not> write_json_fails example_env"
    "\<not> write_html_fails example_env" "net example_env = example_net"
    by (simp_all add: example_env_def)
  have regions: "\<forall>r\<in>set example_regions. \<exists>c n.
      getitem r ''code'' = Inr c \<and> getitem r ''name'' = Inr n"
    by (simp add: example_regions_def)
  have "fetch_call no_repr example_net ''key'' example_config i (example_regions ! i) =
          Inl (HTTPError ''404 Client Error: Not Found'') \<or>
        fetch_call no_repr example_net ''key'' example_config i (example_regions ! i) =
          Inr (JList [example_raw])"
    if "i < length example_regions" for i
  proof -
    from that have "i = 0 \<or> i = 1"
      by (auto simp: example_regions_def)
    with example_fetch_failed example_fetch_returned show ?thesis
      by auto
  qed
  then have fetches: "\<forall>i<length example_regions.
      (\<exists>msg. fetch_call no_repr (net example_env) ''key'' example_config i (example_regions ! i) =
         Inl (HTTPError msg)) \<or>
      (\<exists>os. fetch_call no_repr (net example_env) ''key'' example_config i (example_regions ! i) =
         Inr (JList os) \<and> (\<forall>obs\<in>set os. \<exists>kvs. obs = JObj kvs))"
    unfolding env(7) by (fastforce simp: example_raw_def)
  have messages: "\<forall>i req msg. net example_env i req = BadStatus msg \<longrightarrow> msg \<noteq> []"
    by (auto simp: env(7) example_net_def split: if_splits)
  from http_error_is_recorded_and_run_continues
    [OF env(1,2,3) getitem_example_regions regions fetches messages env(4,5,6)]
  obtain out es where run: "main no_repr example_env = Inr out"
    "exit_status (main no_repr example_env) = 0"
    "getitem (data_json out) ''regions'' = Inr (JList es)"
    "\<forall>i<length example_regions. \<forall>msg.
       fetch_call no_repr (net example_env) ''key'' example_config i (example_regions ! i) =
         Inl (HTTPError msg) \<longrightarrow>
       msg \<noteq> [] \<and> getitem (es ! i) ''observations'' = Inr (JList []) \<and>
       getitem (es ! i) ''error'' = Inr (JStr msg)"
    "\<forall>i<length example_regions. \<forall>os.
       fetch_call no_repr (net example_env) ''key'' example_config i (example_regions ! i) =
         Inr (JList os) \<longrightarrow>
       (\<exists>formatted. map_result (format_observation no_repr) os = Inr formatted \<and>
          getitem (es ! i) ''observations'' = Inr (JList formatted))"
    by blast
  from run(1) example_main have out: "out = example_out"
    by simp
  with run(3) example_regions_entries have es: "es = example_results"
    by simp
  have len: "0 < length example_regions" "1 < length example_regions"
    by (simp_all add: example_regions_def)
  from run(4) [rule_format, OF len(1)] example_fetch_failed
  have first: "getitem (example_results ! 0) ''observations'' = Inr (JList [])"
    "getitem (example_results ! 0) ''error'' = Inr (JStr ''404 Client Error: Not Found'')"
    unfolding es env(7) by blast+
  from run(5) [rule_format, OF len(2)] example_fetch_returned
  obtain formatted where "map_result (format_observation no_repr) [example_raw] = Inr formatted"
    "getitem (example_results ! 1) ''observations'' = Inr (JList formatted)"
    unfolding es env(7) by blast
  then have second: "getitem (example_results ! 1) ''observations'' = Inr (JList [example_formatted])"
    by (simp add: example_format)
  from run(2) example_main example_fetch_failed example_fetch_returned first second
  show ?thesis
    by simp
qed

section \<open>Orchestrator: the \<open>error\<close> key\<close>

text \<open>
  C9. Whenever \<open>main\<close> returns, the entry of a region is a dict that has the
  key \<open>error\<close> if and only if the request for that region raised an HTTP error,
  and the key is then bound to the message of that error. The entry of a region
  whose request succeeded has no \<open>error\<close> key at all.
\<close>

theorem error_key_iff_http_error:
  assumes "main fmt env = Inr out"
    and "EBIRD_API_KEY env = Some key"
    and "config_file env = Inr config"
    and "getitem config ''regions'' = Inr (JList rs)"
  shows "\<exists>es. getitem (data_json out) ''regions'' = Inr (JList es) \<and>
           length es = length rs \<and>
           (\<forall>i<length rs. \<exists>kvs. es ! i = JObj kvs \<and>
              ((''error'' \<in> set (map fst kvs)) =
                 (\<exists>msg. fetch_call fmt (net env) key config i (rs ! i) = Inl (HTTPError msg))) \<and>
              (\<forall>msg. fetch_call fmt (net env) key config i (rs ! i) = Inl (HTTPError msg) \<longrightarrow>
                 map_of kvs ''error'' = Some (JStr msg)))"
proof -
  from assms(1) obtain key' config' regions rs' es where run:
    "EBIRD_API_KEY env = Some key'" "config_file env = Inr config'"
    "getitem config' ''regions'' = Inr regions"
    "py_iter regions = Inr rs'" "length es = length rs'"
    "\<forall>j<length rs'. region_entry fmt (net env) key' config' j (rs' ! j) = Inr (es ! j)"
    "data_json out = JObj [(''last_updated'', JStr (utc_now env)), (''config'', config'),
                            (''regions'', JList es)]"
    by (rule main_Inr)
  from run(1,2,3,4) assms(2,3,4) have same: "key' = key" "config' = config" "rs' = rs"
    by simp_all
  have "\<exists>kvs. es ! i = JObj kvs \<and>
      ((''error'' \<in> set (map fst kvs)) =
         (\<exists>msg. fetch_call fmt (net env) key config i (rs ! i) = Inl (HTTPError msg))) \<and>
      (\<forall>msg. fetch_call fmt (net env) key config i (rs ! i) = Inl (HTTPError msg) \<longrightarrow>
         map_of kvs ''error'' = Some (JStr msg))"
    if "i < length rs" for i
  proof -
    from that run(6) same have "region_entry fmt (net env) key config i (rs ! i) = Inr (es ! i)"
      by simp
    from region_entry_Inr [OF this] obtain c n where
      "(\<exists>msg. fetch_call fmt (net env) key config i (rs ! i) = Inl (HTTPError msg) \<and>
          es ! i = JObj [(''code'', c), (''name'', n), (''observations'', JList []),
                         (''error'', JStr msg)]) \<or>
       (\<exists>raw formatted. fetch_call fmt (net env) key config i (rs ! i) = Inr raw \<and>
          es ! i = JObj [(''code'', c), (''name'', n), (''observations'', JList formatted)])"
      by blast
    then show ?thesis
    proof (elim disjE exE conjE)
      fix msg
      assume "fetch_call fmt (net env) key config i (rs ! i) = Inl (HTTPError msg)"
        and "es ! i = JObj [(''code'', c), (''name'', n), (''observations'', JList []),
                         (''error'', JStr msg)]"
      then show ?thesis
        by simp
    next
      fix raw formatted
      assume "fetch_call fmt (net env) key config i (rs ! i) = Inr raw"
        and "es ! i = JObj [(''code'', c), (''name'', n), (''observations'', JList formatted)]"
      then show ?thesis
        by simp
    qed
  qed
  with run(5,7) same show ?thesis
    by simp
qed

theorem error_key_iff_http_error_witness:
  "\<exists>es failed fetched.
     getitem (data_json example_out) ''regions'' = Inr (JList es) \<and>
     es ! 0 = JObj failed \<and> ''error'' \<in> set (map fst failed) \<and>
     map_of failed ''error'' = Some (JStr ''404 Client Error: Not Found'') \<and>
     es ! 1 = JObj fetched \<and> ''error'' \<notin> set (map fst fetched)"
proof -
  have env: "EBIRD_API_KEY example_env = Some ''key''"
    "config_file example_env = Inr example_config" "net example_env = example_net"
    by (simp_all add: example_env_def)
  from error_key_iff_http_error [OF example_main env(1,2) getitem_example_regions]
  obtain es where es: "getitem (data_json example_out) ''regions'' = Inr (JList es)"
    and each: "\<And>i. i < length example_regions \<Longrightarrow> \<exists>kvs. es ! i = JObj kvs \<and>
        ((''error'' \<in> set (map fst kvs)) =
           (\<exists>msg. fetch_call no_repr example_net ''key'' example_config i (example_regions ! i) =
              Inl (HTTPError msg))) \<and>
        (\<forall>msg. fetch_call no_repr example_net ''key'' example_config i (example_regions ! i) =
              Inl (HTTPError msg) \<longrightarrow> map_of kvs ''error'' = Some (JStr msg))"
    unfolding env(3) by blast
  have len: "0 < length example_regions" "1 < length example_regions"
    by (simp_all add: example_regions_def)
  from each [OF len(1)] example_fetch_failed obtain failed where
    failed: "es ! 0 = JObj failed" "''error'' \<in> set (map fst failed)"
      "map_of failed ''error'' = Some (JStr ''404 Client Error: Not Found'')"
    by auto
  from each [OF len(2)] example_fetch_returned obtain fetched where
    fetched: "es ! 1 = JObj fetched" "''error'' \<notin> set (map fst fetched)"
    by auto
  from es failed fetched show ?thesis
    by blast
qed

section \<open>Configuration: where the defaults are applied\<close>

text \<open>
  C5, as stated, fails: \<open>load_config\<close> returns the decoded file as it is. With
  a file that holds only \<open>regions\<close>, the configuration it returns has neither
  \<open>days_back\<close> nor \<open>max_results\<close>.
\<close>

theorem load_config_adds_no_default:
  "load_config (Inr example_config) = Inr example_config \<and>
   getitem example_config ''days_back'' = Inl (KeyError ''days_back'') \<and>
   getitem example_config ''max_results'' = Inl (KeyError ''max_results'')"
  by (simp add: load_config_def example_config_def)

lemma fetch_call_request:
  assumes "getitem region ''code'' = Inr code"
  shows "fetch_call fmt nw key (JObj cfg) i region =
    (case nw i \<lparr> url = ''https://api.ebird.org/v2/data/obs/'' @ py_str fmt code
                         @ ''/recent/notable'',
                   headers = [(''X-eBirdApiToken'', key)],
                   params = [(''back'', case map_of cfg ''days_back'' of
                                          None \<Rightarrow> JInt 7 | Some v \<Rightarrow> v),
                             (''maxResults'', case map_of cfg ''max_results'' of
                                                None \<Rightarrow> JInt 100 | Some v \<Rightarrow> v),
                             (''detail'', JStr ''full'')] \<rparr> of
       NoResponse \<Rightarrow> Inl RequestError
     | BadStatus msg \<Rightarrow> Inl (HTTPError msg)
     | BadBody \<Rightarrow> Inl JSONDecodeError
     | Payload v \<Rightarrow> Inr v)"
  by (simp add: fetch_call_def fetch_notable_observations_def get_def assms)

lemma region_entry_same_answer:
  assumes "fetch_call fmt nw' key config i region = fetch_call fmt nw key config i region"
  shows "region_entry fmt nw' key config i region = region_entry fmt nw key config i region"
  unfolding region_entry_def fetch_region_def assms ..

lemma fetch_loop_same_answers:
  "\<forall>j<length rs. fetch_call fmt nw' key config (i + j) (rs ! j) =
                  fetch_call fmt nw key config (i + j) (rs ! j) \<Longrightarrow>
   fetch_loop fmt nw' key config i acc rs = fetch_loop fmt nw key config i acc rs"
proof (induction rs arbitrary: i acc)
  case Nil
  then show ?case by simp
next
  case (Cons r rs)
  from Cons.prems [rule_format, of 0]
  have "fetch_call fmt nw' key config i r = fetch_call fmt nw key config i r"
    by simp
  then have first: "region_entry fmt nw' key config i r = region_entry fmt nw key config i r"
    by (rule region_entry_same_answer)
  have "\<forall>j<length rs. fetch_call fmt nw' key config (Suc i + j) (rs ! j) =
                       fetch_call fmt nw key config (Suc i + j) (rs ! j)"
  proof (intro allI impI)
    fix j assume "j < length rs"
    with Cons.prems [rule_format, of "Suc j"]
    show "fetch_call fmt nw' key config (Suc i + j) (rs ! j) =
          fetch_call fmt nw key config (Suc i + j) (rs ! j)"
      by simp
  qed
  then have rest: "fetch_loop fmt nw' key config (Suc i) acc' rs =
      fetch_loop fmt nw key config (Suc i) acc' rs" for acc'
    by (rule Cons.IH)
  show ?case
    unfolding fetch_loop.simps first rest ..
qed

text \<open>
  C5, amended. \<open>load_config\<close> returns the decoded descriptor unchanged, and
  \<open>main\<close> copies that same configuration into \<open>data.json\<close>. The defaults
  are applied by \<open>main\<close> where it calls the fetcher. In a run that returns,
  the \<open>i\<close>-th request is the one for the \<open>i\<close>-th region: its URL holds the
  region's code, its header the API key, and its query parameters are \<open>back\<close>,
  \<open>maxResults\<close> and \<open>detail=full\<close>, where \<open>back\<close> is \<open>days_back\<close> of the
  configuration, or 7 when the key is absent, and \<open>maxResults\<close> is
  \<open>max_results\<close>, or 100 when the key is absent. The entry of the region is
  what the network answered to that request, and no other answer of the network
  is used: a network that agrees on these requests gives the same run.
\<close>

theorem defaults_applied_at_fetch:
  assumes "main fmt env = Inr out" and "EBIRD_API_KEY env = Some key"
  shows "\<exists>cfg rs es reqs.
           config_file env = Inr (JObj cfg) \<and>
           load_config (config_file env) = Inr (JObj cfg) \<and>
           getitem (data_json out) ''config'' = Inr (JObj cfg) \<and>
           and_then (getitem (JObj cfg) ''regions'') py_iter = Inr rs \<and>
           getitem (data_json out) ''regions'' = Inr (JList es) \<and>
           length es = length rs \<and> length reqs = length rs \<and>
           (\<forall>i<length rs. \<exists>code.
              getitem (rs ! i) ''code'' = Inr code \<and>
              reqs ! i =
                \<lparr> url = ''https://api.ebird.org/v2/data/obs/'' @ py_str fmt code
                         @ ''/recent/notable'',
                  headers = [(''X-eBirdApiToken'', key)],
                  params = [(''back'', case map_of cfg ''days_back'' of
                                         None \<Rightarrow> JInt 7 | Some v \<Rightarrow> v),
                            (''maxResults'', case map_of cfg ''max_results'' of
                                               None \<Rightarrow> JInt 100 | Some v \<Rightarrow> v),
                            (''detail'', JStr ''full'')] \<rparr> \<and>
              (case net env i (reqs ! i) of
                 BadStatus msg \<Rightarrow>
                   getitem (es ! i) ''observations'' = Inr (JList []) \<and>
                   getitem (es ! i) ''error'' = Inr (JStr msg)
               | Payload raw \<Rightarrow>
                   (\<exists>os formatted. py_iter raw = Inr os \<and>
                      map_result (format_observation fmt) os = Inr formatted \<and>
                      getitem (es ! i) ''observations'' = Inr (JList formatted)) \<and>
                   getitem (es ! i) ''error'' = Inl (KeyError ''error'')
               | NoResponse \<Rightarrow> False
               | BadBody \<Rightarrow> False)) \<and>
           (\<forall>nw. (\<forall>i<length rs. nw i (reqs ! i) = net env i (reqs ! i)) \<longrightarrow>
              main fmt (env\<lparr>net := nw\<rparr>) = Inr out)"
proof -
  from assms(1) obtain key' config regions rs es where run:
    "EBIRD_API_KEY env = Some key'" "key' \<noteq> []" "config_file env = Inr config"
    "getitem config ''regions'' = Inr regions" "py_iter regions = Inr rs"
    "length es = length rs"
    "\<forall>j<length rs. region_entry fmt (net env) key' config j (rs ! j) = Inr (es ! j)"
    "data_json out = JObj [(''last_updated'', JStr (utc_now env)), (''config'', config),
                            (''regions'', JList es)]"
    by (rule main_Inr)
  from run(1) assms(2) have key: "key' = key"
    by simp
  from run(4) obtain cfg where cfg: "config = JObj cfg"
    by (cases config) simp_all
  let ?req = "\<lambda>code. \<lparr> url = ''https://api.ebird.org/v2/data/obs/'' @ py_str fmt code
                         @ ''/recent/notable'',
                  headers = [(''X-eBirdApiToken'', key)],
                  params = [(''back'', case map_of cfg ''days_back'' of
                                         None \<Rightarrow> JInt 7 | Some v \<Rightarrow> v),
                            (''maxResults'', case map_of cfg ''max_results'' of
                                               None \<Rightarrow> JInt 100 | Some v \<Rightarrow> v),
                            (''detail'', JStr ''full'')] \<rparr>"
  have entry: "region_entry fmt (net env) key (JObj cfg) i (rs ! i) = Inr (es ! i)"
    if "i < length rs" for i
    using that run(7) key cfg by simp
  have code: "\<exists>code. getitem (rs ! i) ''code'' = Inr code" if "i < length rs" for i
    using region_entry_Inr [OF entry [OF that]] by blast
  define codes where "codes = map (\<lambda>r. projr (getitem r ''code'')) rs"
  define reqs where "reqs = map ?req codes"
  have codes: "getitem (rs ! i) ''code'' = Inr (codes ! i)" if "i < length rs" for i
    using code [OF that] that by (auto simp: codes_def)
  have reqs: "reqs ! i = ?req (codes ! i)" if "i < length rs" for i
    using that by (simp add: reqs_def codes_def)
  have call: "fetch_call fmt nw key (JObj cfg) i (rs ! i) =
      (case nw i (reqs ! i) of
         NoResponse \<Rightarrow> Inl RequestError
       | BadStatus msg \<Rightarrow> Inl (HTTPError msg)
       | BadBody \<Rightarrow> Inl JSONDecodeError
       | Payload v \<Rightarrow> Inr v)"
    if "i < length rs" for i nw
    unfolding reqs [OF that] by (rule fetch_call_request [OF codes [OF that]])
  have answered: "case net env i (reqs ! i) of
         BadStatus msg \<Rightarrow>
           getitem (es ! i) ''observations'' = Inr (JList []) \<and>
           getitem (es ! i) ''error'' = Inr (JStr msg)
       | Payload raw \<Rightarrow>
           (\<exists>os formatted. py_iter raw = Inr os \<and>
              map_result (format_observation fmt) os = Inr formatted \<and>
              getitem (es ! i) ''observations'' = Inr (JList formatted)) \<and>
           getitem (es ! i) ''error'' = Inl (KeyError ''error'')
       | NoResponse \<Rightarrow> False
       | BadBody \<Rightarrow> False"
    if "i < length rs" for i
  proof -
    from region_entry_Inr [OF entry [OF that]] obtain c n where
      alt: "(\<exists>msg. fetch_call fmt (net env) key (JObj cfg) i (rs ! i) = Inl (HTTPError msg) \<and>
               es ! i = JObj [(''code'', c), (''name'', n), (''observations'', JList []),
                              (''error'', JStr msg)]) \<or>
            (\<exists>raw obs_list formatted.
               fetch_call fmt (net env) key (JObj cfg) i (rs ! i) = Inr raw \<and>
               py_iter raw = Inr obs_list \<and>
               map_result (format_observation fmt) obs_list = Inr formatted \<and>
               es ! i = JObj [(''code'', c), (''name'', n), (''observations'', JList formatted)])"
      by blast
    show ?thesis
    proof (cases "net env i (reqs ! i)")
      case NoResponse
      with alt call [OF that, of "net env"] show ?thesis by simp
    next
      case (BadStatus msg)
      with alt call [OF that, of "net env"] show ?thesis by auto
    next
      case BadBody
      with alt call [OF that, of "net env"] show ?thesis by simp
    next
      case (Payload raw)
      with alt call [OF that, of "net env"] show ?thesis by auto
    qed
  qed
  have same_run: "main fmt (env\<lparr>net := nw\<rparr>) = Inr out"
    if agree: "\<forall>i<length rs. nw i (reqs ! i) = net env i (reqs ! i)" for nw
  proof -
    have "\<forall>j<length rs. fetch_call fmt nw key (JObj cfg) (0 + j) (rs ! j) =
                          fetch_call fmt (net env) key (JObj cfg) (0 + j) (rs ! j)"
      using agree by (simp add: call)
    then have "fetch_loop fmt nw key (JObj cfg) 0 [] rs =
        fetch_loop fmt (net env) key (JObj cfg) 0 [] rs"
      by (rule fetch_loop_same_answers)
    then have "main fmt (env\<lparr>net := nw\<rparr>) = main fmt env"
      using run(2,3,4,5) assms(2) key cfg
      by (simp add: main_def load_config_def cong del: if_weak_cong)
    with assms(1) show ?thesis
      by simp
  qed
  have each: "\<forall>i<length rs. \<exists>code.
      getitem (rs ! i) ''code'' = Inr code \<and> reqs ! i = ?req code \<and>
      (case net env i (reqs ! i) of
         BadStatus msg \<Rightarrow>
           getitem (es ! i) ''observations'' = Inr (JList []) \<and>
           getitem (es ! i) ''error'' = Inr (JStr msg)
       | Payload raw \<Rightarrow>
           (\<exists>os formatted. py_iter raw = Inr os \<and>
              map_result (format_observation fmt) os = Inr formatted \<and>
              getitem (es ! i) ''observations'' = Inr (JList formatted)) \<and>
           getitem (es ! i) ''error'' = Inl (KeyError ''error'')
       | NoResponse \<Rightarrow> False
       | BadBody \<Rightarrow> False)"
    using codes reqs answered by blast
  have facts: "config_file env = Inr (JObj cfg)" "load_config (config_file env) = Inr (JObj cfg)"
    "getitem (data_json out) ''config'' = Inr (JObj cfg)"
    "and_then (getitem (JObj cfg) ''regions'') py_iter = Inr rs"
    "getitem (data_json out) ''regions'' = Inr (JList es)"
    "length es = length rs" "length reqs = length rs"
    using run(3,4,5,6,8) cfg by (simp_all add: load_config_def reqs_def codes_def)
  from facts each same_run show ?thesis
    by blast
qed

theorem defaults_applied_at_fetch_witness:
  "getitem (data_json example_out) ''config'' = Inr example_config \<and>
   getitem example_config ''days_back'' = Inl (KeyError ''days_back'') \<and>
   getitem example_config ''max_results'' = Inl (KeyError ''max_results'') \<and>
   main no_repr (example_env\<lparr>net := example_strict_net\<rparr>) = Inr example_out"
proof -
  have env: "EBIRD_API_KEY example_env = Some ''key''"
    "config_file example_env = Inr example_config" "net example_env = example_net"
    by (simp_all add: example_env_def)
  from defaults_applied_at_fetch [OF example_main env(1)]
  obtain cfg rs reqs where cfg: "config_file example_env = Inr (JObj cfg)"
    "getitem (data_json example_out) ''config'' = Inr (JObj cfg)"
    "and_then (getitem (JObj cfg) ''regions'') py_iter = Inr rs"
    and each: "\<And>i. i < length rs \<Longrightarrow> \<exists>code.
      getitem (rs ! i) ''code'' = Inr code \<and>
      reqs ! i =
        \<lparr> url = ''https://api.ebird.org/v2/data/obs/'' @ py_str no_repr code
                 @ ''/recent/notable'',
          headers = [(''X-eBirdApiToken'', ''key'')],
          params = [(''back'', case map_of cfg ''days_back'' of
                                 None \<Rightarrow> JInt 7 | Some v \<Rightarrow> v),
                    (''maxResults'', case map_of cfg ''max_results'' of
                                       None \<Rightarrow> JInt 100 | Some v \<Rightarrow> v),
                    (''detail'', JStr ''full'')] \<rparr>"
    and same_run: "\<And>nw. \<forall>i<length rs. nw i (reqs ! i) = example_net i (reqs ! i) \<Longrightarrow>
      main no_repr (example_env\<lparr>net := nw\<rparr>) = Inr example_out"
    unfolding env(3) by blast
  from cfg(1) env(2) have same: "JObj cfg = example_config"
    by simp
  then have absent: "map_of cfg ''days_back'' = None" "map_of cfg ''max_results'' = None"
    by (simp_all add: example_config_def)
  from cfg(3) have rs: "rs = example_regions"
    unfolding same by (simp add: getitem_example_regions)
  have first: "reqs ! 0 = \<lparr> url = ''https://api.ebird.org/v2/data/obs/US-NY/recent/notable'',
        headers = [(''X-eBirdApiToken'', ''key'')],
        params = [(''back'', JInt 7), (''maxResults'', JInt 100), (''detail'', JStr ''full'')] \<rparr>"
    using each [of 0] unfolding rs absent by (auto simp: example_regions_def)
  have second: "reqs ! 1 = \<lparr> url = ''https://api.ebird.org/v2/data/obs/US-CA/recent/notable'',
        headers = [(''X-eBirdApiToken'', ''key'')],
        params = [(''back'', JInt 7), (''maxResults'', JInt 100), (''detail'', JStr ''full'')] \<rparr>"
    using each [of 1] unfolding rs absent by (auto simp: example_regions_def)
  have "example_strict_net i (reqs ! i) = example_net i (reqs ! i)" if "i < length rs" for i
  proof -
    from that have "i = 0 \<or> i = 1"
      unfolding rs by (auto simp: example_regions_def)
    then show ?thesis
    proof
      assume "i = 0"
      with first show ?thesis
        by (simp add: example_strict_net_def example_net_def)
    next
      assume "i = 1"
      with second show ?thesis
        by (simp add: example_strict_net_def example_net_def)
    qed
  qed
  then have "main no_repr (example_env\<lparr>net := example_strict_net\<rparr>) = Inr example_out"
    by (intro same_run) blast
  moreover have "getitem example_config ''days_back'' = Inl (KeyError ''days_back'')"
    "getitem example_config ''max_results'' = Inl (KeyError ''max_results'')"
    by (simp_all add: example_config_def)
  ultimately show ?thesis
    using cfg(2) same by simp
qed

section \<open>HTML renderer: what reaches the page\<close>

lemma sublist_concat_mem: "y \<in> set ys \<Longrightarrow> sublist y (concat ys)"
proof -
  assume "y \<in> set ys"
  then obtain as bs where "ys = as @ y # bs"
    by (auto simp: in_set_conv_decomp)
  then have "concat ys = concat as @ y @ concat bs"
    by simp
  then show ?thesis
    by (simp only: sublist_appendI)
qed

lemma region_html_Inr:
  assumes "region_html fmt r = Inr sec"
  obtains n observations where "getitem r ''name'' = Inr n"
    "getitem r ''observations'' = Inr observations"
proof (cases "getitem r ''name''")
  case (Inl e)
  with assms show ?thesis by (simp add: region_html_def)
next
  case n: (Inr n)
  show ?thesis
  proof (cases "getitem r ''observations''")
    case (Inl e)
    with assms n show ?thesis by (simp add: region_html_def)
  next
    case (Inr observations)
    with n show ?thesis by (rule that)
  qed
qed

lemma region_html_items:
  assumes "region_html fmt r = Inr sec"
    and "getitem r ''observations'' = Inr (JList os)" and "os \<noteq> []"
  shows "\<exists>items. map_result (observation_html fmt) os = Inr items \<and> sublist (concat items) sec"
proof -
  from assms(1) obtain n where n: "getitem r ''name'' = Inr n"
    by (rule region_html_Inr)
  show ?thesis
  proof (cases "map_result (observation_html fmt) os")
    case (Inl e)
    with assms n show ?thesis
      by (simp add: region_html_def observations_loop_eq)
  next
    case (Inr items)
    have t: "truthy (JList os)"
      using assms(3) by simp
    have "sublist (concat items) sec"
      using assms(1)
      unfolding region_html_def n assms(2) and_then_Inr observations_loop_eq py_iter.simps Inr
        append_Nil sum.inject
      by (simp only: t not_True_eq_False if_False and_then_Inr sum.inject)
         (hypsubst, (rule sublist_here | rule sublist_later)+)
    with Inr show ?thesis
      by blast
  qed
qed

lemma generate_html_section:
  assumes "generate_html fmt rs config last_updated = Inr html" and "r \<in> set rs"
  shows "\<exists>sec. region_html fmt r = Inr sec \<and> sublist sec html"
proof (cases "map_result (region_html fmt) rs")
  case (Inl e)
  with assms(1) show ?thesis
    by (simp add: generate_html_eq)
next
  case (Inr secs)
  from map_result_mem [OF Inr assms(2)] obtain sec where
    sec: "sec \<in> set secs" "region_html fmt r = Inr sec"
    by blast
  have "sublist (concat secs) html"
    using assms(1) unfolding generate_html_eq Inr and_then_Inr sum.inject
    by hypsubst (rule sublist_here | rule sublist_later)+
  with sublist_concat_mem [OF sec(1)] have "sublist sec html"
    by (rule sublist_order.order_trans)
  with sec(2) show ?thesis
    by blast
qed

lemma generate_html_item:
  assumes "generate_html fmt rs config last_updated = Inr html" and "r \<in> set rs"
    and "getitem r ''observations'' = Inr (JList os)" and "obs \<in> set os"
  shows "\<exists>item. observation_html fmt obs = Inr item \<and> sublist item html"
proof -
  from generate_html_section [OF assms(1,2)] obtain sec where
    sec: "region_html fmt r = Inr sec" "sublist sec html"
    by blast
  from assms(4) have "os \<noteq> []"
    by auto
  from region_html_items [OF sec(1) assms(3) this] obtain items where
    items: "map_result (observation_html fmt) os = Inr items" "sublist (concat items) sec"
    by blast
  from map_result_mem [OF items(1) assms(4)] obtain item where
    item: "item \<in> set items" "observation_html fmt obs = Inr item"
    by blast
  from sublist_concat_mem [OF item(1)] items(2) sec(2) have "sublist item html"
    by (blast intro: sublist_order.order_trans)
  with item(2) show ?thesis
    by blast
qed

lemma observation_html_cong:
  assumes "getitem obs' ''count'' = getitem obs ''count''"
    and "getitem obs' ''checklist_url'' = getitem obs ''checklist_url''"
    and "getitem obs' ''species_url'' = getitem obs ''species_url''"
    and "getitem obs' ''species'' = getitem obs ''species''"
    and "getitem obs' ''scientific_name'' = getitem obs ''scientific_name''"
    and "getitem obs' ''location'' = getitem obs ''location''"
    and "getitem obs' ''date'' = getitem obs ''date''"
  shows "observation_html fmt obs' = observation_html fmt obs"
  unfolding observation_html_def count_str_def checklist_link_def species_link_def assms ..

lemma example_html_has_no_Q: "CHR ''Q'' \<notin> set example_html"
proof -
  have head: "CHR ''Q'' \<notin> set page_head"
    by (simp add: page_head_def)
  have middle: "CHR ''Q'' \<notin> set page_middle"
    by (simp add: page_middle_def)
  have foot: "CHR ''Q'' \<notin> set page_foot"
    by (simp add: page_foot_def)
  have "\<exists>secs. map_result (region_html no_repr) example_results = Inr secs \<and>
      CHR ''Q'' \<notin> set (concat secs)"
    by (simp add: example_results_def example_formatted_def region_html_def
        observations_loop_eq observation_html_def count_str_def checklist_link_def
        species_link_def)
  then obtain secs where "map_result (region_html no_repr) example_results = Inr secs"
    and secs: "CHR ''Q'' \<notin> set (concat secs)"
    by blast
  then have eq: "example_html =
      page_head @ ''2024-01-05 09:00 UTC'' @ page_middle @ concat secs @ page_foot"
    by (simp add: example_html_def generate_html_eq)
  show ?thesis
    unfolding eq using head middle foot secs by simp
qed

text \<open>
  C6, as stated, fails for the observer: \<open>generate_html\<close> never reads that
  field. In the example run the observation's observer is \<open><Q>\<close>, and that
  text is nowhere in the page.
\<close>

theorem observer_is_not_rendered:
  "generate_html no_repr example_results example_config ''2024-01-05 09:00 UTC'' = Inr example_html \<and>
   getitem (example_results ! 1) ''observations'' = Inr (JList [example_formatted]) \<and>
   getitem example_formatted ''observer'' = Inr (JStr ''<Q>'') \<and>
   \<not> sublist ''<Q>'' example_html"
proof -
  have "\<not> sublist ''<Q>'' example_html"
  proof
    assume "sublist ''<Q>'' example_html"
    then have "set ''<Q>'' \<subseteq> set example_html"
      by (rule set_mono_sublist)
    with example_html_has_no_Q show False
      by simp
  qed
  moreover have "getitem (example_results ! 1) ''observations'' = Inr (JList [example_formatted])"
    by (simp add: example_results_def)
  moreover have "getitem example_formatted ''observer'' = Inr (JStr ''<Q>'')"
    by (simp add: example_formatted_def)
  ultimately show ?thesis
    using example_html_returns by blast
qed

text \<open>
  C6, amended. Of every observation of every region, the species, the
  scientific name, the location and the date are inserted into the page as
  they are, character for character, markup included: the text of each is a
  contiguous part of the document. The observer is not rendered: two
  observations that differ in nothing but the observer give the same HTML.
\<close>

theorem observation_text_inserted_verbatim:
  assumes "generate_html fmt all_observations config last_updated = Inr html"
    and "region_data \<in> set all_observations"
    and "getitem region_data ''observations'' = Inr (JList os)"
    and "obs \<in> set os"
  shows "(\<forall>k v. k \<in> {''species'', ''scientific_name'', ''location'', ''date''} \<longrightarrow>
            getitem obs k = Inr v \<longrightarrow> sublist (py_str fmt v) html) \<and>
         (\<forall>k s. k \<in> {''species'', ''scientific_name'', ''location'', ''date''} \<longrightarrow>
            getitem obs k = Inr (JStr s) \<longrightarrow> sublist s html) \<and>
         (\<forall>obs'. (\<forall>k. k \<noteq> ''observer'' \<longrightarrow> getitem obs' k = getitem obs k) \<longrightarrow>
            observation_html fmt obs' = observation_html fmt obs)"
proof -
  from generate_html_item [OF assms] obtain item where
    item: "observation_html fmt obs = Inr item" "sublist item html"
    by blast
  have general: "sublist (py_str fmt v) html"
    if "k \<in> {''species'', ''scientific_name'', ''location'', ''date''}" "getitem obs k = Inr v"
    for k v
    using observation_html_verbatim [OF item(1) that(2,1)] item(2)
    by (rule sublist_order.order_trans)
  have strings: "sublist s html"
    if "k \<in> {''species'', ''scientific_name'', ''location'', ''date''}"
      "getitem obs k = Inr (JStr s)"
    for k s
    using general [OF that] by simp
  have observer: "observation_html fmt obs' = observation_html fmt obs"
    if "\<forall>k. k \<noteq> ''observer'' \<longrightarrow> getitem obs' k = getitem obs k" for obs'
    by (rule observation_html_cong) (simp_all add: that)
  from general strings observer show ?thesis
    by blast
qed

theorem observation_text_inserted_verbatim_witness:
  "getitem example_formatted ''species'' = Inr (JStr ''Snowy <b>Owl</b>'') \<and>
   sublist ''Snowy <b>Owl</b>'' example_html \<and>
   getitem example_formatted ''location'' = Inr (JStr ''Central Park'') \<and>
   sublist ''Central Park'' example_html"
proof -
  have r: "example_results ! 1 \<in> set example_results"
    by (simp add: example_results_def)
  have os: "getitem (example_results ! 1) ''observations'' = Inr (JList [example_formatted])"
    by (simp add: example_results_def)
  have obs: "example_formatted \<in> set [example_formatted]"
    by simp
  have species: "getitem example_formatted ''species'' = Inr (JStr ''Snowy <b>Owl</b>'')"
    and location: "getitem example_formatted ''location'' = Inr (JStr ''Central Park'')"
    by (simp_all add: example_formatted_def)
  from observation_text_inserted_verbatim [OF example_html_returns r os obs]
  have "\<And>k s. k \<in> {''species'', ''scientific_name'', ''location'', ''date''} \<Longrightarrow>
      getitem example_formatted k = Inr (JStr s) \<Longrightarrow> sublist s example_html"
    by blast
  from this [OF _ species] this [OF _ location] species location show ?thesis
    by simp
qed

section \<open>HTML renderer: a region without observations\<close>

lemma region_html_empty:
  assumes "getitem r ''name'' = Inr n" and "getitem r ''observations'' = Inr (JList [])"
  shows \<open>region_html fmt r =
    Inr (''\<newline>        <section class="region">\<newline>            <h2>'' @ py_str fmt n
      @ ''</h2>\<newline>            <div class="observations">\<newline>                <p>No notable sightings in the past week.</p>\<newline>            </div>\<newline>        </section>\<newline>        '')\<close>
  by (simp add: region_html_def assms)

text \<open>
  C8, as stated, fails: the region's name is inserted unescaped, so a region
  with no observations whose name is the text \<open><div class="observation">\<close>
  has that text in its section.
\<close>

theorem markup_in_region_name:
  \<open>getitem example_markup_region ''observations'' = Inr (JList []) \<and>
   \<not> isl (region_html no_repr example_markup_region) \<and>
   sublist ''<div class="observation">'' (projr (region_html no_repr example_markup_region))\<close>
proof -
  have n: \<open>getitem example_markup_region ''name'' = Inr (JStr ''<div class="observation">'')\<close>
    and os: "getitem example_markup_region ''observations'' = Inr (JList [])"
    by (simp_all add: example_markup_region_def)
  show ?thesis
    unfolding region_html_empty [OF n os] sum.sel py_str.simps
    by (intro conjI os sublist_appendI) simp
qed

text \<open>
  C8, amended. The section of a region whose observations list is empty is part
  of the page, contains the text \<open>No notable sightings in the past week.\<close>,
  and contains \<open><div class="observation">\<close> exactly when the text of the
  region's name contains it: the renderer itself emits no observation element
  there.
\<close>

theorem empty_region_placeholder:
  assumes \<open>generate_html fmt all_observations config last_updated = Inr html\<close>
    and \<open>region_data \<in> set all_observations\<close>
    and \<open>getitem region_data ''name'' = Inr name\<close>
    and \<open>getitem region_data ''observations'' = Inr (JList [])\<close>
  shows \<open>\<exists>sec. region_html fmt region_data = Inr sec \<and> sublist sec html \<and>
           sublist ''No notable sightings in the past week.'' sec \<and>
           (sublist ''<div class="observation">'' sec =
              sublist ''<div class="observation">'' (py_str fmt name))\<close>
proof -
  let ?A = \<open>''\<newline>        <section class="region">\<newline>            <h2>''\<close>
  let ?B = \<open>''</h2>\<newline>            <div class="observations">\<newline>                <p>No notable sightings in the past week.</p>\<newline>            </div>\<newline>        </section>\<newline>        ''\<close>
  let ?sec = "?A @ py_str fmt name @ ?B"
  have sec: "region_html fmt region_data = Inr ?sec"
    by (rule region_html_empty [OF assms(3,4)])
  from generate_html_section [OF assms(1,2)] sec have page: "sublist ?sec html"
    by simp
  have \<open>?B = ''</h2>\<newline>            <div class="observations">\<newline>                <p>''
      @ ''No notable sightings in the past week.''
      @ ''</p>\<newline>            </div>\<newline>        </section>\<newline>        ''\<close>
    by simp
  then have "sublist ''No notable sightings in the past week.'' ?B"
    by (simp only: sublist_appendI)
  then have placeholder: "sublist ''No notable sightings in the past week.'' ?sec"
    by (intro sublist_later)
  have \<open>sublist ''<div class="observation">'' ?sec =
      (sublist ''<div class="observation">'' ?A \<or>
       sublist ''<div class="observation">'' (py_str fmt name) \<or>
       sublist ''<div class="observation">'' ?B)\<close>
    by (rule sublist_sandwich) simp_all
  with no_card_before no_card_after
  have card: \<open>sublist ''<div class="observation">'' ?sec =
      sublist ''<div class="observation">'' (py_str fmt name)\<close>
    by simp
  from sec page placeholder card show ?thesis
    by blast
qed

theorem empty_region_placeholder_witness:
  \<open>getitem (example_results ! 0) ''observations'' = Inr (JList []) \<and>
   (\<exists>sec. region_html no_repr (example_results ! 0) = Inr sec \<and> sublist sec example_html \<and>
      sublist ''No notable sightings in the past week.'' sec \<and>
      \<not> sublist ''<div class="observation">'' sec)\<close>
proof -
  have r: "example_results ! 0 \<in> set example_results"
    by (simp add: example_results_def)
  have n: "getitem (example_results ! 0) ''name'' = Inr (JStr ''New York'')"
    and os: "getitem (example_results ! 0) ''observations'' = Inr (JList [])"
    by (simp_all add: example_results_def)
  have name: \<open>\<not> sublist ''<div class="observation">'' ''New York''\<close>
    by code_simp
  from empty_region_placeholder [OF example_html_returns r n os] name os show ?thesis
    by auto
qed

section \<open>HTML renderer: what the page depends on\<close>

text \<open>
  C10. The page depends on the \<open>name\<close> and the \<open>observations\<close> of each
  region entry only: two lists of entries that agree, entry by entry, on what
  reading these two keys gives, render to the same document, whatever their
  \<open>code\<close> and \<open>error\<close> and whatever the configuration. So a failed region
  renders as a region that returned no observation does, and the error string
  has no way into the page.
\<close>

theorem page_depends_on_name_and_observations:
  assumes "list_all2 (\<lambda>r r'. getitem r ''name'' = getitem r' ''name'' \<and>
             getitem r ''observations'' = getitem r' ''observations'') rs rs'"
  shows "generate_html fmt rs config last_updated = generate_html fmt rs' config' last_updated"
proof -
  from assms have "list_all2 (\<lambda>r r'. region_html fmt r = region_html fmt r') rs rs'"
    by (rule list_all2_mono) (rule region_html_cong, simp_all)
  then have "map_result (region_html fmt) rs = map_result (region_html fmt) rs'"
    by (rule map_result_cong_all2)
  then show ?thesis
    unfolding generate_html_eq by (rule arg_cong2 [where f = and_then]) simp
qed

theorem page_depends_on_name_and_observations_witness:
  "generate_html no_repr
     [JObj [(''code'', JStr ''US-NY''), (''name'', JStr ''New York''),
            (''observations'', JList []), (''error'', JStr ''404 Client Error: Not Found'')]]
     example_config ''2024-01-05 09:00 UTC'' =
   generate_html no_repr
     [JObj [(''code'', JStr ''US-CA''), (''name'', JStr ''New York''),
            (''observations'', JList [])]]
     JNull ''2024-01-05 09:00 UTC''"
  by (rule page_depends_on_name_and_observations) simp

end
